theory Spec2Isabelle
  imports Complex_Main
begin

section \<open>Strings and regular expressions\<close>

text \<open>
  Strings are lists of characters.  The character classes below are the ASCII
  part of what Python's \<^verbatim>\<open>re\<close> module and \<^verbatim>\<open>str.strip\<close> use:
  \<^verbatim>\<open>\d\<close> is 0-9, \<^verbatim>\<open>\s\<close> is the code points 9-13, 28-31 and 32,
  \<^verbatim>\<open>\w\<close> is letters, digits and the underscore.
\<close>

definition is_digit :: "char \<Rightarrow> bool" where
  "is_digit c = (48 \<le> (of_char c :: nat) \<and> (of_char c :: nat) \<le> 57)"

definition is_upper :: "char \<Rightarrow> bool" where
  "is_upper c = (65 \<le> (of_char c :: nat) \<and> (of_char c :: nat) \<le> 90)"

definition is_lower :: "char \<Rightarrow> bool" where
  "is_lower c = (97 \<le> (of_char c :: nat) \<and> (of_char c :: nat) \<le> 122)"

definition is_alpha :: "char \<Rightarrow> bool" where
  "is_alpha c = (is_upper c \<or> is_lower c)"

definition is_space :: "char \<Rightarrow> bool" where
  "is_space c = ((9 \<le> (of_char c :: nat) \<and> (of_char c :: nat) \<le> 13)
               \<or> (28 \<le> (of_char c :: nat) \<and> (of_char c :: nat) \<le> 32))"

definition is_word :: "char \<Rightarrow> bool" where
  "is_word c = (is_alpha c \<or> is_digit c \<or> c = CHR ''_'')"

text \<open>Decimal digits: reading and printing a natural number.\<close>

definition digit_val :: "char \<Rightarrow> nat" where
  "digit_val c = of_char c - 48"

definition nat_of_digits :: "string \<Rightarrow> nat" where
  "nat_of_digits s = foldl (\<lambda>n c. 10 * n + digit_val c) 0 s"

function show_nat :: "nat \<Rightarrow> string" where
  "show_nat n =
     (if n < 10 then [''0123456789'' ! n]
      else show_nat (n div 10) @ [''0123456789'' ! (n mod 10)])"
  by pat_completeness auto
termination
  by (relation "measure id") auto

declare show_nat.simps [simp del]

text \<open>\<^verbatim>\<open>str.split(',')\<close>\<close>

fun split_on :: "char \<Rightarrow> string \<Rightarrow> string list" where
  "split_on c [] = [[]]"
| "split_on c (x # xs) =
     (if x = c then [] # split_on c xs
      else (case split_on c xs of [] \<Rightarrow> [[x]] | p # ps \<Rightarrow> (x # p) # ps))"

text \<open>
  A regular expression, and matching of a whole string by derivatives.  Every
  pattern of the program is anchored at both ends (\<^verbatim>\<open>^...$\<close>) and applied to
  a stripped string, so \<^verbatim>\<open>re.match\<close> succeeds exactly when the whole string
  is in the pattern's language.
\<close>

datatype rx =
    Nul
  | Eps
  | Cls "char \<Rightarrow> bool"
  | Alt rx rx
  | Cat rx rx
  | Rep rx

fun nullable :: "rx \<Rightarrow> bool" where
  "nullable Nul = False"
| "nullable Eps = True"
| "nullable (Cls p) = False"
| "nullable (Alt r s) = (nullable r \<or> nullable s)"
| "nullable (Cat r s) = (nullable r \<and> nullable s)"
| "nullable (Rep r) = True"

fun deriv :: "char \<Rightarrow> rx \<Rightarrow> rx" where
  "deriv c Nul = Nul"
| "deriv c Eps = Nul"
| "deriv c (Cls p) = (if p c then Eps else Nul)"
| "deriv c (Alt r s) = Alt (deriv c r) (deriv c s)"
| "deriv c (Cat r s) =
     (if nullable r then Alt (Cat (deriv c r) s) (deriv c s) else Cat (deriv c r) s)"
| "deriv c (Rep r) = Cat (deriv c r) (Rep r)"

fun re_match :: "rx \<Rightarrow> string \<Rightarrow> bool" where
  "re_match r [] = nullable r"
| "re_match r (c # cs) = re_match (deriv c r) cs"

text \<open>The pattern operators the program's regular expressions use.\<close>

definition chr :: "char \<Rightarrow> rx" where
  "chr a = Cls (\<lambda>c. c = a)"

definition opt :: "rx \<Rightarrow> rx" where
  "opt r = Alt Eps r"

definition plus1 :: "rx \<Rightarrow> rx" where
  "plus1 r = Cat r (Rep r)"

definition at_least2 :: "rx \<Rightarrow> rx" where
  "at_least2 r = Cat r (Cat r (Rep r))"

fun rep_n :: "nat \<Rightarrow> rx \<Rightarrow> rx" where
  "rep_n 0 r = Eps"
| "rep_n (Suc n) r = Cat r (rep_n n r)"

section \<open>LocationValidator (backend/validators/location.py)\<close>

text \<open>\<^verbatim>\<open>-?\d+(\.\d+)?\<close>, the number of the coordinates pattern.\<close>

definition number_rx :: rx where
  "number_rx =
     Cat (opt (chr CHR ''-''))
       (Cat (plus1 (Cls is_digit)) (opt (Cat (chr CHR ''.'') (plus1 (Cls is_digit)))))"

text \<open>\<^verbatim>\<open>^\d{5}(-\d{4})?$\<close>\<close>

definition zip_rx :: rx where
  "zip_rx = Cat (rep_n 5 (Cls is_digit)) (opt (Cat (chr CHR ''-'') (rep_n 4 (Cls is_digit))))"

text \<open>\<^verbatim>\<open>^(-?\d+(\.\d+)?),\s*(-?\d+(\.\d+)?)$\<close>\<close>

definition coordinates_rx :: rx where
  "coordinates_rx = Cat number_rx (Cat (chr CHR '','') (Cat (Rep (Cls is_space)) number_rx))"

text \<open>\<^verbatim>\<open>^[A-Za-z\s]{2,},\s*[A-Za-z]{2,}$\<close>\<close>

definition city_rx :: rx where
  "city_rx =
     Cat (at_least2 (Cls (\<lambda>c. is_alpha c \<or> is_space c)))
       (Cat (chr CHR '','') (Cat (Rep (Cls is_space)) (at_least2 (Cls is_alpha))))"

text \<open>\<^verbatim>\<open>^[A-Za-z0-9\s\-\'\.]{2,}$\<close>\<close>

definition landmark_rx :: rx where
  "landmark_rx =
     at_least2 (Cls (\<lambda>c. is_alpha c \<or> is_digit c \<or> is_space c
                          \<or> c = CHR ''-'' \<or> c = CHR 0x27 \<or> c = CHR ''.''))"

text \<open>The dictionary \<^verbatim>\<open>PATTERNS\<close>, in its insertion order.\<close>

definition PATTERNS :: "(string \<times> rx) list" where
  "PATTERNS =
     [(''zip'', zip_rx), (''coordinates'', coordinates_rx),
      (''city'', city_rx), (''landmark'', landmark_rx)]"

text \<open>\<^verbatim>\<open>str.strip()\<close> and \<^verbatim>\<open>str.split()\<close> (no argument: runs of whitespace).\<close>

definition strip :: "string \<Rightarrow> string" where
  "strip s = rev (dropWhile is_space (rev (dropWhile is_space s)))"

function split_ws :: "string \<Rightarrow> string list" where
  "split_ws s =
     (let t = dropWhile is_space s
      in if t = [] then []
         else takeWhile (\<lambda>c. \<not> is_space c) t # split_ws (dropWhile (\<lambda>c. \<not> is_space c) t))"
  by pat_completeness auto
termination
proof (relation "measure length")
  show "wf (measure length)" by simp
next
  fix s t :: string
  assume t: "t = dropWhile is_space s" and ne: "t \<noteq> []"
  have "\<not> is_space (hd t)"
    using t ne hd_dropWhile by metis
  then have "dropWhile (\<lambda>c. \<not> is_space c) t = dropWhile (\<lambda>c. \<not> is_space c) (tl t)"
    using ne by (cases t) auto
  moreover have "length (dropWhile (\<lambda>c. \<not> is_space c) (tl t)) \<le> length (tl t)"
    by (rule length_dropWhile_le)
  moreover have "length (tl t) < length t"
    using ne by (cases t) auto
  moreover have "length t \<le> length s"
    unfolding t by (rule length_dropWhile_le)
  ultimately show "(dropWhile (\<lambda>c. \<not> is_space c) t, s) \<in> measure length"
    by simp
qed

text \<open>
  \<^verbatim>\<open>_is_reasonable_landmark\<close>: at most 100 characters, no character outside
  \<^verbatim>\<open>[\w\s\-'.,:()]\<close>, at most 10 words.
\<close>

definition landmark_char :: "char \<Rightarrow> bool" where
  "landmark_char c =
     (is_word c \<or> is_space c \<or> c = CHR ''-'' \<or> c = CHR 0x27 \<or> c = CHR ''.''
      \<or> c = CHR '','' \<or> c = CHR '':'' \<or> c = CHR ''('' \<or> c = CHR '')'')"

definition is_reasonable_landmark :: "string \<Rightarrow> bool" where
  "is_reasonable_landmark location =
     (if length location > 100 then False
      else if list_ex (\<lambda>c. \<not> landmark_char c) location then False
      else if length (split_ws location) > 10 then False
      else True)"

text \<open>
  A value handed to \<^verbatim>\<open>validate\<close>: a string, or anything else (which fails the
  \<^verbatim>\<open>isinstance(location, str)\<close> test).
\<close>

datatype pyval = PyStr string | PyNonStr

text \<open>The loop over \<^verbatim>\<open>PATTERNS.items()\<close>: the first pattern that matches wins.\<close>

fun first_match :: "(string \<times> rx) list \<Rightarrow> string \<Rightarrow> string option" where
  "first_match [] location = None"
| "first_match ((location_type, pattern) # ps) location =
     (if re_match pattern location then Some location_type else first_match ps location)"

definition validate_str :: "string \<Rightarrow> bool \<times> string \<times> string option" where
  "validate_str location0 =
     (if location0 = [] then (False, ''Location must be a non-empty string'', None)
      else let location = strip location0
        in if length location < 2
           then (False, ''Location must be at least 2 characters long'', None)
           else case first_match PATTERNS location of
                  Some location_type \<Rightarrow> (True, ''Valid location format'', Some location_type)
                | None \<Rightarrow>
                    if is_reasonable_landmark location
                    then (True, ''Assumed landmark location'', Some ''landmark'')
                    else (False, ''Invalid location format'', None))"

fun validate :: "pyval \<Rightarrow> bool \<times> string \<times> string option" where
  "validate PyNonStr = (False, ''Location must be a non-empty string'', None)"
| "validate (PyStr location) = validate_str location"

subsection \<open>normalize_location\<close>

text \<open>Letter case of ASCII characters, \<^verbatim>\<open>str.capitalize\<close> and \<^verbatim>\<open>str.title\<close>.\<close>

definition to_upper :: "char \<Rightarrow> char" where
  "to_upper c = (if is_lower c then char_of ((of_char c :: nat) - 32) else c)"

definition to_lower :: "char \<Rightarrow> char" where
  "to_lower c = (if is_upper c then char_of ((of_char c :: nat) + 32) else c)"

definition capitalize :: "string \<Rightarrow> string" where
  "capitalize s = (case s of [] \<Rightarrow> [] | c # cs \<Rightarrow> to_upper c # map to_lower cs)"

fun title_from :: "bool \<Rightarrow> string \<Rightarrow> string" where
  "title_from previous_is_cased [] = []"
| "title_from previous_is_cased (c # cs) =
     (if is_alpha c
      then (if previous_is_cased then to_lower c else to_upper c) # title_from True cs
      else c # title_from False cs)"

definition title :: "string \<Rightarrow> string" where
  "title s = title_from False s"

fun join :: "string \<Rightarrow> string list \<Rightarrow> string" where
  "join sep [] = []"
| "join sep [x] = x"
| "join sep (x # y # r) = x @ sep @ join sep (y # r)"

text \<open>
  \<^verbatim>\<open>re.findall(r'-?\d+\.?\d*', location)\<close>.  At one position the pattern matches an
  optional minus, the longest run of digits (at least one), an optional dot and the
  longest run of digits after it; the parts after the first digits can all be empty, so
  the greedy choice is never taken back.  \<open>match_number\<close> gives the matched prefix and
  what follows it.  The search goes on after a match, and one character further where
  there is none.
\<close>

definition after_opt :: "char \<Rightarrow> string \<Rightarrow> string" where
  "after_opt ch s = (case s of [] \<Rightarrow> [] | c # cs \<Rightarrow> if c = ch then cs else s)"

definition match_number :: "string \<Rightarrow> (string \<times> string) option" where
  "match_number s =
     (let r = after_opt CHR ''-'' s
      in if takeWhile is_digit r = [] then None
         else let rest = dropWhile is_digit (after_opt CHR ''.'' (dropWhile is_digit r))
              in Some (take (length s - length rest) s, rest))"

function findall_numbers :: "string \<Rightarrow> string list" where
  "findall_numbers s =
     (if s = [] then []
      else (case match_number s of
              None \<Rightarrow> findall_numbers (tl s)
            | Some (tok, rest) \<Rightarrow> tok # findall_numbers rest))"
  by pat_completeness auto
termination
proof (relation "measure length")
  show "wf (measure length)" by simp
next
  fix s :: string
  assume "s \<noteq> []"
  then show "(tl s, s) \<in> measure length" by (cases s) auto
next
  fix s tok rest :: string and x
  assume m: "match_number s = Some x" and x: "(tok, rest) = x"
  have opt_le: "length (after_opt ch u) \<le> length u" for ch u
    by (cases u) (auto simp: after_opt_def)
  have take_lt: "takeWhile is_digit u \<noteq> [] \<Longrightarrow> length (dropWhile is_digit u) < length u" for u
    by (cases u) (auto simp: le_imp_less_Suc length_dropWhile_le split: if_splits)
  let ?r = "after_opt CHR ''-'' s"
  from m x have ds: "takeWhile is_digit ?r \<noteq> []"
    and rest: "rest = dropWhile is_digit (after_opt CHR ''.'' (dropWhile is_digit ?r))"
    by (auto simp: match_number_def Let_def split: if_splits)
  have "length rest \<le> length (after_opt CHR ''.'' (dropWhile is_digit ?r))"
    unfolding rest by (rule length_dropWhile_le)
  also have "\<dots> \<le> length (dropWhile is_digit ?r)" by (rule opt_le)
  also have "\<dots> < length ?r" using ds by (rule take_lt)
  also have "\<dots> \<le> length s" by (rule opt_le)
  finally show "(rest, s) \<in> measure length" by simp
qed

declare findall_numbers.simps [simp del]

text \<open>
  \<^verbatim>\<open>normalize_location\<close>.  Python's \<^verbatim>\<open>float\<close> on strings and the format
  \<^verbatim>\<open>'.6f'\<close> are floating-point library functions and stay parameters: \<open>pyfloat\<close>
  (\<open>None\<close> is its \<^verbatim>\<open>ValueError\<close>) and \<open>fmt6\<close>.  Unpacking into \<^verbatim>\<open>lat, lon\<close> converts
  the tokens one by one and fails unless there are exactly two.
\<close>

definition unpack_lat_lon :: "(string \<Rightarrow> 'f option) \<Rightarrow> string list \<Rightarrow> ('f \<times> 'f) option" where
  "unpack_lat_lon pyfloat toks =
     (case toks of
        [] \<Rightarrow> None
      | a # r \<Rightarrow>
     (case pyfloat a of
        None \<Rightarrow> None
      | Some x \<Rightarrow>
     (case r of
        [] \<Rightarrow> None
      | b # r' \<Rightarrow>
     (case pyfloat b of
        None \<Rightarrow> None
      | Some y \<Rightarrow> (case r' of [] \<Rightarrow> Some (x, y) | c # r'' \<Rightarrow> None)))))"

definition normalize_location ::
  "(string \<Rightarrow> 'f option) \<Rightarrow> ('f \<Rightarrow> string) \<Rightarrow> string \<Rightarrow> string \<Rightarrow> string" where
  "normalize_location pyfloat fmt6 location0 location_type =
     (let location = strip location0
      in if location_type = ''coordinates''
         then (case unpack_lat_lon pyfloat (findall_numbers location) of
                 Some (lat, lon) \<Rightarrow> fmt6 lat @ '','' @ fmt6 lon
               | None \<Rightarrow> location)
         else if location_type = ''city''
         then join '','' (map (\<lambda>part. title (strip part)) (split_on CHR '','' location))
         else if location_type = ''zip''
         then filter (\<lambda>c. c \<noteq> CHR '' '') location
         else if location_type = ''landmark''
         then join '' '' (map (\<lambda>word. if length word > 3 then capitalize word else word)
                            (split_ws location))
         else location)"

text \<open>
  An instance of the two parameters in exact decimal arithmetic, for running
  \<open>normalize_location\<close> on concrete strings: the value of a token, and the value printed
  with six places (rounded half to even).
\<close>

definition dec_float :: "string \<Rightarrow> rat option" where
  "dec_float s =
     (let neg = (s \<noteq> [] \<and> hd s = CHR ''-'');
          r = (if neg then tl s else s);
          ds = takeWhile is_digit r;
          r1 = dropWhile is_digit r;
          fs = (if r1 \<noteq> [] \<and> hd r1 = CHR ''.'' then tl r1 else r1)
      in if ds \<noteq> [] \<and> list_all is_digit fs \<and> (r1 = [] \<or> hd r1 = CHR ''.'')
         then let v = of_nat (nat_of_digits ds)
                      + of_nat (nat_of_digits fs) / of_nat (10 ^ length fs)
              in Some (if neg then - v else v)
         else None)"

definition round_half_even :: "rat \<Rightarrow> int" where
  "round_half_even q =
     (let f = \<lfloor>q\<rfloor>; d = q - of_int f
      in if d < 1 / 2 then f else if d > 1 / 2 then f + 1 else if even f then f else f + 1)"

definition pad6 :: "string \<Rightarrow> string" where
  "pad6 s = replicate (6 - length s) CHR ''0'' @ s"

definition fmt6_dec :: "rat \<Rightarrow> string" where
  "fmt6_dec q =
     (let n = nat (round_half_even (\<bar>q\<bar> * 1000000))
      in (if q < 0 then [CHR ''-''] else []) @ show_nat (n div 1000000) @ [CHR ''.'']
         @ pad6 (show_nat (n mod 1000000)))"

section \<open>Dates (backend/validators/date_range.py, backend/weather_service.py)\<close>

text \<open>
  A \<^verbatim>\<open>datetime.date\<close> is modelled by its proleptic Gregorian ordinal
  (\<^verbatim>\<open>date.toordinal()\<close>): comparison of dates is comparison of ordinals, and
  \<^verbatim>\<open>(end - start).days\<close> is their difference.  The library call
  \<^verbatim>\<open>datetime.strptime(s, '%Y-%m-%d').date()\<close> is a parameter \<open>strptime\<close> of the
  validators: \<open>Inl msg\<close> is its \<^verbatim>\<open>ValueError\<close>, \<open>Inr d\<close> the parsed date.
  \<^verbatim>\<open>datetime.now().date()\<close> is the parameter \<open>today\<close>.
\<close>

type_synonym date = int

definition MAX_DAYS_PAST :: nat where "MAX_DAYS_PAST = 7"
definition MAX_DAYS_FUTURE :: nat where "MAX_DAYS_FUTURE = 5"
definition MAX_RANGE_DAYS :: nat where "MAX_RANGE_DAYS = 5"
definition DATE_FORMAT :: string where "DATE_FORMAT = ''%Y-%m-%d''"

record date_range =
  start_date :: date
  end_date :: date
  range_days :: int

text \<open>\<^verbatim>\<open>DateRangeValidator.validate\<close>\<close>

definition validate_dates ::
  "(string \<Rightarrow> string + date) \<Rightarrow> date \<Rightarrow> string \<Rightarrow> string
     \<Rightarrow> bool \<times> string \<times> date_range option" where
  "validate_dates strptime today start_s end_s =
     (case strptime start_s of
        Inl e \<Rightarrow> (False, ''Invalid date format. Use '' @ DATE_FORMAT, None)
      | Inr start \<Rightarrow>
     (case strptime end_s of
        Inl e \<Rightarrow> (False, ''Invalid date format. Use '' @ DATE_FORMAT, None)
      | Inr end \<Rightarrow>
          let max_past_date = today - int MAX_DAYS_PAST;
              max_future_date = today + int MAX_DAYS_FUTURE
          in if start > end
             then (False, ''Start date must be before or equal to end date'', None)
             else let rd = end - start
               in if rd > int MAX_RANGE_DAYS
                  then (False, ''Date range cannot exceed '' @ show_nat MAX_RANGE_DAYS @ '' days'',
                        None)
                  else if start < max_past_date
                  then (False, ''Start date cannot be more than '' @ show_nat MAX_DAYS_PAST
                               @ '' days in the past'', None)
                  else if end > max_future_date
                  then (False, ''End date cannot be more than '' @ show_nat MAX_DAYS_FUTURE
                               @ '' days in the future'', None)
                  else (True, ''Valid date range'',
                        Some \<lparr>start_date = start, end_date = end, range_days = rd + 1\<rparr>)))"

text \<open>
  \<^verbatim>\<open>WeatherService.validate_date_range\<close>: every \<^verbatim>\<open>ValueError\<close> raised in the body,
  the parser's included, is caught and raised again with a prefix.
\<close>

definition validate_date_range_body ::
  "(string \<Rightarrow> string + date) \<Rightarrow> date \<Rightarrow> string \<Rightarrow> string \<Rightarrow> string + bool" where
  "validate_date_range_body strptime today start_s end_s =
     (case strptime start_s of
        Inl e \<Rightarrow> Inl e
      | Inr start \<Rightarrow>
     (case strptime end_s of
        Inl e \<Rightarrow> Inl e
      | Inr end \<Rightarrow>
          let max_future = today + 5;
              max_past = today - 7
          in if start > end then Inl ''Start date must be before end date''
             else if start < max_past
             then Inl ''Start date cannot be more than 7 days in the past''
             else if end > max_future
             then Inl ''End date cannot be more than 5 days in the future''
             else if end - start > 5 then Inl ''Date range cannot exceed 5 days''
             else Inr True))"

definition validate_date_range ::
  "(string \<Rightarrow> string + date) \<Rightarrow> date \<Rightarrow> string \<Rightarrow> string \<Rightarrow> string + bool" where
  "validate_date_range strptime today start_s end_s =
     (case validate_date_range_body strptime today start_s end_s of
        Inl e \<Rightarrow> Inl (''Date validation error: '' @ e)
      | Inr b \<Rightarrow> Inr b)"

text \<open>
  An instance of the parser for running the validators on concrete strings: it reads
  zero-padded \<^verbatim>\<open>YYYY-MM-DD\<close> and computes the ordinal as \<^verbatim>\<open>date.toordinal\<close> does.
\<close>

definition is_leap :: "nat \<Rightarrow> bool" where
  "is_leap y = (y mod 4 = 0 \<and> (y mod 100 \<noteq> 0 \<or> y mod 400 = 0))"

definition days_in_month :: "nat \<Rightarrow> nat \<Rightarrow> nat" where
  "days_in_month y m =
     (if m = 2 then (if is_leap y then 29 else 28)
      else if m = 4 \<or> m = 6 \<or> m = 9 \<or> m = 11 then 30 else 31)"

definition days_before_year :: "nat \<Rightarrow> nat" where
  "days_before_year y = (y - 1) * 365 + (y - 1) div 4 - (y - 1) div 100 + (y - 1) div 400"

definition days_before_month :: "nat \<Rightarrow> nat \<Rightarrow> nat" where
  "days_before_month y m = sum_list (map (days_in_month y) [1..<m])"

definition ymd_to_ord :: "nat \<Rightarrow> nat \<Rightarrow> nat \<Rightarrow> date" where
  "ymd_to_ord y m d = int (days_before_year y + days_before_month y m + d)"

definition iso_date :: "string \<Rightarrow> string + date" where
  "iso_date s =
     (if length s = 10 \<and> list_all is_digit (take 4 s) \<and> s ! 4 = CHR ''-''
         \<and> list_all is_digit (take 2 (drop 5 s)) \<and> s ! 7 = CHR ''-''
         \<and> list_all is_digit (drop 8 s)
      then let y = nat_of_digits (take 4 s);
               m = nat_of_digits (take 2 (drop 5 s));
               d = nat_of_digits (drop 8 s)
           in if 1 \<le> y \<and> 1 \<le> m \<and> m \<le> 12 \<and> 1 \<le> d \<and> d \<le> days_in_month y m
              then Inr (ymd_to_ord y m d)
              else Inl ''date out of range''
      else Inl ''time data does not match format'')"

section \<open>Forecast aggregation (backend/weather_service.py, src/core/weather_service.py)\<close>

text \<open>Python exceptions, as values.\<close>

datatype py_error =
    ValueError string
  | KeyError string
  | IndexError
  | ZeroDivisionError
  | OverflowError
  | AttributeError
  | TypeError
  | ConnectionError string
  | Exception string

text \<open>
  One entry of the provider's \<^verbatim>\<open>list\<close>:
  \<^verbatim>\<open>{dt, main:{temp}, weather:[{description, icon}], pop}\<close>.  Temperatures and
  probabilities are only compared by the aggregation, so they are rationals here.  The
  key \<^verbatim>\<open>pop\<close> may be absent.
\<close>

record forecast_item =
  dt :: int
  temp :: rat
  weather :: "(string \<times> string) list"
  pop :: "rat option"

text \<open>
  \<^verbatim>\<open>min(xs)\<close> and \<^verbatim>\<open>max(xs)\<close> of a list whose first element is \<open>x\<close>: one pass that
  keeps the best value seen so far.
\<close>

definition py_min :: "rat \<Rightarrow> rat list \<Rightarrow> rat" where
  "py_min x xs = fold (\<lambda>y best. if y < best then y else best) xs x"

definition py_max :: "rat \<Rightarrow> rat list \<Rightarrow> rat" where
  "py_max x xs = fold (\<lambda>y best. if y > best then y else best) xs x"

subsection \<open>The backend variant: runs of consecutive samples of one date\<close>

record daily_summary =
  day :: date
  average_temp :: rat
  min_temp :: rat
  max_temp :: rat

text \<open>
  The summary of one run.  \<open>avg\<close> stands for
  \<^verbatim>\<open>round(sum(daily_temps) / len(daily_temps), 2)\<close>, which is floating-point arithmetic
  and stays a parameter; the division fails on an empty list.
\<close>

definition summarise :: "(rat list \<Rightarrow> rat) \<Rightarrow> date \<Rightarrow> rat list \<Rightarrow> py_error + daily_summary" where
  "summarise avg current_date daily_temps =
     (case daily_temps of
        [] \<Rightarrow> Inl ZeroDivisionError
      | t # ts \<Rightarrow>
          Inr \<lparr>day = current_date, average_temp = avg daily_temps,
               min_temp = py_min t ts, max_temp = py_max t ts\<rparr>)"

text \<open>
  The loop over \<^verbatim>\<open>forecast_data['list']\<close>, with its three variables
  \<^verbatim>\<open>daily_forecasts\<close>, \<^verbatim>\<open>current_date\<close> and \<^verbatim>\<open>daily_temps\<close>.  \<open>date_of\<close> is
  \<^verbatim>\<open>datetime.fromtimestamp(dt).date()\<close>, which depends on the local time zone.
\<close>

fun backend_loop ::
  "(rat list \<Rightarrow> rat) \<Rightarrow> (int \<Rightarrow> date) \<Rightarrow> forecast_item list
     \<Rightarrow> daily_summary list \<Rightarrow> date option \<Rightarrow> rat list
     \<Rightarrow> py_error + (daily_summary list \<times> date option \<times> rat list)" where
  "backend_loop avg date_of [] daily_forecasts current_date daily_temps =
     Inr (daily_forecasts, current_date, daily_temps)"
| "backend_loop avg date_of (item # items) daily_forecasts current_date daily_temps =
     (let d = date_of (dt item);
          cur = (case current_date of None \<Rightarrow> d | Some c \<Rightarrow> c)
      in if d \<noteq> cur
         then (case summarise avg cur daily_temps of
                 Inl e \<Rightarrow> Inl e
               | Inr s \<Rightarrow>
                   backend_loop avg date_of items (daily_forecasts @ [s]) (Some d) [temp item])
         else backend_loop avg date_of items daily_forecasts (Some cur)
                (daily_temps @ [temp item]))"

definition forecast_backend ::
  "(rat list \<Rightarrow> rat) \<Rightarrow> (int \<Rightarrow> date) \<Rightarrow> forecast_item list
     \<Rightarrow> py_error + daily_summary list" where
  "forecast_backend avg date_of items =
     (case backend_loop avg date_of items [] None [] of
        Inl e \<Rightarrow> Inl e
      | Inr (daily_forecasts, current_date, daily_temps) \<Rightarrow>
          if daily_temps = [] then Inr daily_forecasts
          else (case current_date of
                  None \<Rightarrow> Inl AttributeError
                | Some c \<Rightarrow>
                    (case summarise avg c daily_temps of
                       Inl e \<Rightarrow> Inl e
                     | Inr s \<Rightarrow> Inr (daily_forecasts @ [s]))))"

subsection \<open>The desktop variant: a dictionary from date to samples\<close>

record forecast_data =
  fdate :: date
  temp_min :: rat
  temp_max :: rat
  condition :: string
  icon :: string
  precipitation_prob :: rat

text \<open>
  \<^verbatim>\<open>daily_forecasts\<close> is a dictionary in insertion order: a new date is added at the
  end, a known date gets the sample appended to its list.
\<close>

fun dict_append ::
  "(date \<times> forecast_item list) list \<Rightarrow> date \<Rightarrow> forecast_item
     \<Rightarrow> (date \<times> forecast_item list) list" where
  "dict_append [] d item = [(d, [item])]"
| "dict_append ((k, v) # kvs) d item =
     (if k = d then (k, v @ [item]) # kvs else (k, v) # dict_append kvs d item)"

definition group_by_day ::
  "(int \<Rightarrow> date) \<Rightarrow> forecast_item list \<Rightarrow> (date \<times> forecast_item list) list" where
  "group_by_day date_of items =
     foldl (\<lambda>daily_forecasts item. dict_append daily_forecasts (date_of (dt item)) item) [] items"

text \<open>
  The objects that \<^verbatim>\<open>items.count(x)\<close> compares: \<^verbatim>\<open>x\<close> is a
  \<^verbatim>\<open>(description, icon)\<close> tuple, the elements of \<^verbatim>\<open>items\<close> are the provider's
  dictionaries.  Python's \<^verbatim>\<open>==\<close> is equality of these values.
\<close>

datatype pyobj = Tuple string string | Dict forecast_item

definition py_count :: "pyobj list \<Rightarrow> pyobj \<Rightarrow> nat" where
  "py_count xs x = length (filter (\<lambda>y. y = x) xs)"

text \<open>\<^verbatim>\<open>max(xs, key=f)\<close> on a list that starts with \<open>best\<close>: the first maximal element.\<close>

fun max_key :: "('a \<Rightarrow> nat) \<Rightarrow> 'a \<Rightarrow> 'a list \<Rightarrow> 'a" where
  "max_key f best [] = best"
| "max_key f best (x # xs) = (if f x > f best then max_key f x xs else max_key f best xs)"

text \<open>\<^verbatim>\<open>item["weather"][0]\<close>, an \<^verbatim>\<open>IndexError\<close> on an empty list.\<close>

definition weather0 :: "forecast_item \<Rightarrow> py_error + (string \<times> string)" where
  "weather0 item = (case weather item of [] \<Rightarrow> Inl IndexError | w # ws \<Rightarrow> Inr w)"

fun traverse :: "('a \<Rightarrow> py_error + 'b) \<Rightarrow> 'a list \<Rightarrow> py_error + 'b list" where
  "traverse f [] = Inr []"
| "traverse f (x # xs) =
     (case f x of
        Inl e \<Rightarrow> Inl e
      | Inr y \<Rightarrow> (case traverse f xs of Inl e \<Rightarrow> Inl e | Inr ys \<Rightarrow> Inr (y # ys)))"

definition pop_or_0 :: "forecast_item \<Rightarrow> rat" where
  "pop_or_0 item = (case pop item of None \<Rightarrow> 0 | Some p \<Rightarrow> p)"

text \<open>
  The body of the loop over the first five days.  Each list of the dictionary has at
  least one sample; on an empty one \<^verbatim>\<open>max\<close> raises a \<^verbatim>\<open>ValueError\<close>.  The loop also
  saves one record per day to the history database; the records are not part of the
  returned list and are left out here.
\<close>

definition day_forecast :: "date \<Rightarrow> forecast_item list \<Rightarrow> py_error + forecast_data" where
  "day_forecast d items =
     (case traverse weather0 items of
        Inl e \<Rightarrow> Inl e
      | Inr [] \<Rightarrow> Inl (ValueError ''max() arg is an empty sequence'')
      | Inr (w # ws) \<Rightarrow>
          (case items of
             [] \<Rightarrow> Inl (ValueError ''min() arg is an empty sequence'')
           | i # is \<Rightarrow>
               let most_common_weather =
                     max_key (\<lambda>(x, y). py_count (map Dict items) (Tuple x y)) w ws
               in Inr \<lparr>fdate = d,
                       temp_min = py_min (temp i) (map temp is),
                       temp_max = py_max (temp i) (map temp is),
                       condition = fst most_common_weather,
                       icon = snd most_common_weather,
                       precipitation_prob = py_max (pop_or_0 i) (map pop_or_0 is)\<rparr>))"

definition forecast_core :: "(int \<Rightarrow> date) \<Rightarrow> forecast_item list \<Rightarrow> py_error + forecast_data list" where
  "forecast_core date_of items =
     traverse (\<lambda>(d, its). day_forecast d its) (take 5 (group_by_day date_of items))"

subsection \<open>Concrete provider responses\<close>

text \<open>
  Instances of the two parameters for running the aggregation: dates in UTC (the ordinal
  of 1970-01-01 is 719163) and the mean without the rounding to two places.
\<close>

definition utc_date :: "int \<Rightarrow> date" where
  "utc_date t = 719163 + t div 86400"

definition exact_mean :: "rat list \<Rightarrow> rat" where
  "exact_mean ts = sum_list ts / of_nat (length ts)"

definition sample :: "int \<Rightarrow> rat \<Rightarrow> string \<times> string \<Rightarrow> forecast_item" where
  "sample t c w = \<lparr>dt = t, temp = c, weather = [w], pop = None\<rparr>"

text \<open>Eight samples, three hours apart, from time \<open>t0\<close>, with temperatures \<open>c0, c0 + 1, ...\<close>\<close>

definition eight_samples :: "int \<Rightarrow> rat \<Rightarrow> forecast_item list" where
  "eight_samples t0 c0 =
     map (\<lambda>k. sample (t0 + 10800 * int k) (c0 + of_nat k) (''clear sky'', ''01d''))
       [0, 1, 2, 3, 4, 5, 6, 7]"

text \<open>
  What \<^verbatim>\<open>cnt = days * 8\<close> gives for \<^verbatim>\<open>days = 5\<close> when asked at noon: 40 samples from
  2021-06-10 12:00 UTC to 2021-06-15 09:00 UTC.
\<close>

definition forty_samples :: "forecast_item list" where
  "forty_samples =
     eight_samples 1623326400 0 @ eight_samples 1623412800 8 @ eight_samples 1623499200 16
       @ eight_samples 1623585600 24 @ eight_samples 1623672000 32"

text \<open>One day with one sample of light rain followed by two of clear sky.\<close>

definition rain_then_clear :: "forecast_item list" where
  "rain_then_clear =
     [sample 1623283200 15 (''light rain'', ''10d''),
      sample 1623294000 17 (''clear sky'', ''01d''),
      sample 1623304800 18 (''clear sky'', ''01d'')]"

section \<open>Resolving a location to coordinates\<close>

text \<open>
  The network is a parameter: what the provider answers to a request.  \<open>RequestFailed\<close>
  is a \<^verbatim>\<open>requests.exceptions.RequestException\<close>, raised by \<^verbatim>\<open>get\<close> or by
  \<^verbatim>\<open>raise_for_status\<close>, with its message; \<open>Body\<close> is the decoded JSON.  Every request a
  function issues is appended to a log.
\<close>

datatype request =
    GeoZip string
  | GeoDirect string
  | CurrentWeather rat rat

datatype 'a http_result = RequestFailed string | Body 'a

text \<open>
  The JSON of the geocoding endpoints: \<^verbatim>\<open>/direct\<close> answers an array of objects,
  \<^verbatim>\<open>/zip\<close> a single object; any key of an object may be absent.
\<close>

record geo_obj =
  g_lat :: "rat option"
  g_lon :: "rat option"
  g_name :: "string option"

datatype geo_json = JList "geo_obj list" | JObj geo_obj | JNull

definition key :: "string \<Rightarrow> 'a option \<Rightarrow> py_error + 'a" where
  "key k v = (case v of None \<Rightarrow> Inl (KeyError k) | Some x \<Rightarrow> Inr x)"

definition lat_lon :: "geo_obj \<Rightarrow> py_error + (rat \<times> rat)" where
  "lat_lon obj =
     (case key ''lat'' (g_lat obj) of
        Inl e \<Rightarrow> Inl e
      | Inr la \<Rightarrow> (case key ''lon'' (g_lon obj) of Inl e \<Rightarrow> Inl e | Inr lo \<Rightarrow> Inr (la, lo)))"

text \<open>
  \<^verbatim>\<open>lat, lon = map(float, parts)\<close>: the parts are converted one by one while the two
  targets are filled and the iterator is checked for a third.  \<open>pyfloat\<close> is Python's
  \<^verbatim>\<open>float\<close> on strings, a parameter; \<open>None\<close> is its \<^verbatim>\<open>ValueError\<close>.
\<close>

definition unpack2 :: "(string \<Rightarrow> rat option) \<Rightarrow> string list \<Rightarrow> py_error + (rat \<times> rat)" where
  "unpack2 pyfloat parts =
     (case parts of
        [] \<Rightarrow> Inl (ValueError ''not enough values to unpack'')
      | a # r \<Rightarrow>
     (case pyfloat a of
        None \<Rightarrow> Inl (ValueError ''could not convert string to float'')
      | Some x \<Rightarrow>
     (case r of
        [] \<Rightarrow> Inl (ValueError ''not enough values to unpack'')
      | b # r' \<Rightarrow>
     (case pyfloat b of
        None \<Rightarrow> Inl (ValueError ''could not convert string to float'')
      | Some y \<Rightarrow>
     (case r' of
        [] \<Rightarrow> Inr (x, y)
      | c # r'' \<Rightarrow>
     (case pyfloat c of
        None \<Rightarrow> Inl (ValueError ''could not convert string to float'')
      | Some z \<Rightarrow> Inl (ValueError ''too many values to unpack'')))))))"

text \<open>The geocoding request of the backend for a location of the given type.\<close>

definition geo_request :: "string \<Rightarrow> string \<Rightarrow> request" where
  "geo_request location location_type =
     (if location_type = ''zip'' then GeoZip location else GeoDirect location)"

text \<open>\<^verbatim>\<open>WeatherService._get_coordinates\<close> of the backend.\<close>

definition get_coordinates ::
  "(string \<Rightarrow> rat option) \<Rightarrow> (request \<Rightarrow> geo_json http_result) \<Rightarrow> string \<Rightarrow> string
     \<Rightarrow> request list \<Rightarrow> (py_error + (rat \<times> rat)) \<times> request list" where
  "get_coordinates pyfloat geo_net location location_type sent =
     (if location_type = ''coordinates''
      then (unpack2 pyfloat (split_on CHR '','' location), sent)
      else let req = geo_request location location_type
        in (case geo_net req of
              RequestFailed m \<Rightarrow> (Inl (Exception (''Error fetching coordinates: '' @ m)), sent @ [req])
            | Body (JList (obj # objs)) \<Rightarrow> (lat_lon obj, sent @ [req])
            | Body (JList []) \<Rightarrow> (Inl (ValueError (''Location not found: '' @ location)), sent @ [req])
            | Body (JObj obj) \<Rightarrow>
                (if g_lat obj \<noteq> None then (lat_lon obj, sent @ [req])
                 else (Inl (ValueError (''Location not found: '' @ location)), sent @ [req]))
            | Body JNull \<Rightarrow> (Inl (ValueError (''Location not found: '' @ location)), sent @ [req])))"

text \<open>
  \<^verbatim>\<open>WeatherService.geocode_location\<close> of the desktop variant, with the table
  \<^verbatim>\<open>location_history\<close> it appends to.  An object that is not empty passes the test
  \<^verbatim>\<open>data and len(data) > 0\<close> and fails at \<^verbatim>\<open>data[0]\<close>.
\<close>

record history_row =
  h_query :: string
  h_resolved_name :: "string option"
  h_lat :: rat
  h_lon :: rat

definition geocode_location ::
  "geo_json http_result \<Rightarrow> string \<Rightarrow> history_row list
     \<Rightarrow> (py_error + (rat \<times> rat) option) \<times> history_row list" where
  "geocode_location response location history =
     (case response of
        RequestFailed m \<Rightarrow> (Inl (ConnectionError (''Failed to geocode location: '' @ m)), history)
      | Body (JList (obj # objs)) \<Rightarrow>
          (case lat_lon obj of
             Inl e \<Rightarrow> (Inl e, history)
           | Inr (la, lo) \<Rightarrow>
               (Inr (Some (la, lo)),
                history @ [\<lparr>h_query = location, h_resolved_name = g_name obj,
                             h_lat = la, h_lon = lo\<rparr>]))
      | Body (JList []) \<Rightarrow> (Inr None, history)
      | Body (JObj obj) \<Rightarrow>
          (if g_lat obj = None \<and> g_lon obj = None \<and> g_name obj = None
           then (Inr None, history)
           else (Inl (KeyError ''0''), history))
      | Body JNull \<Rightarrow> (Inr None, history))"

section \<open>The store of the backend (backend/database.py)\<close>

text \<open>
  The table \<^verbatim>\<open>weather_queries\<close>, as a list of rows with the AUTOINCREMENT counter.
  A column holds an SQLite value.  \<^verbatim>\<open>CURRENT_TIMESTAMP\<close> is the parameter \<open>now\<close>.
\<close>

datatype sql_value = SqlNull | SqlInt int | SqlReal rat | SqlText string

record query_row =
  q_id :: int
  q_location :: string
  q_location_type :: string
  q_date_range_start :: string
  q_date_range_end :: string
  q_temperature :: sql_value
  q_weather_conditions :: sql_value
  q_created_at :: int
  q_updated_at :: int

record store =
  rows :: "query_row list"
  last_id :: int

text \<open>
  What can go wrong around a statement.  \<^verbatim>\<open>create_connection\<close> may return
  \<^verbatim>\<open>None\<close> (\<open>ConnectFails\<close>); \<^verbatim>\<open>execute\<close> may raise \<^verbatim>\<open>sqlite3.Error\<close> while it prepares
  the statement, before it looks at the parameters (\<open>PrepareFails\<close>); and \<^verbatim>\<open>execute\<close> or
  \<^verbatim>\<open>commit\<close> may raise \<^verbatim>\<open>sqlite3.Error\<close> after the parameters are bound
  (\<open>ExecuteFails\<close>).  In each case nothing is committed.
\<close>

datatype db_fault = NoFault | ConnectFails | PrepareFails | ExecuteFails

text \<open>
  A Python value passed for a \<^verbatim>\<open>?\<close>: \<^verbatim>\<open>None\<close>, an \<^verbatim>\<open>int\<close> (a \<^verbatim>\<open>bool\<close> is one), a
  finite \<^verbatim>\<open>float\<close>, a \<^verbatim>\<open>str\<close>, or a value of a type \<^verbatim>\<open>sqlite3\<close> does not adapt (a
  list, a dictionary).  Binding an \<^verbatim>\<open>int\<close> outside the signed 64-bit range raises
  \<^verbatim>\<open>OverflowError\<close>, which is not an \<^verbatim>\<open>sqlite3.Error\<close>; binding a value of an
  unsupported type raises an \<^verbatim>\<open>sqlite3.Error\<close>.
\<close>

datatype py_param = PNone | PInt int | PFloat rat | PStr string | PUnsupported

datatype bound = Bound sql_value | BindOverflow | BindUnsupported

definition bind_param :: "py_param \<Rightarrow> bound" where
  "bind_param p =
     (case p of
        PNone \<Rightarrow> Bound SqlNull
      | PInt i \<Rightarrow>
          if - 9223372036854775808 \<le> i \<and> i \<le> 9223372036854775807 then Bound (SqlInt i)
          else BindOverflow
      | PFloat x \<Rightarrow> Bound (SqlReal x)
      | PStr s \<Rightarrow> Bound (SqlText s)
      | PUnsupported \<Rightarrow> BindUnsupported)"

text \<open>
  \<^verbatim>\<open>SET column = COALESCE(?, column)\<close>: the column keeps its value when the parameter is
  NULL, and gets the parameter otherwise, converted as the column's type affinity says
  (\<open>affinity\<close>, a function of SQLite and a parameter here).
\<close>

definition coalesce :: "(sql_value \<Rightarrow> sql_value) \<Rightarrow> sql_value \<Rightarrow> sql_value \<Rightarrow> sql_value" where
  "coalesce affinity param column = (if param = SqlNull then column else affinity param)"

definition update_row ::
  "int \<Rightarrow> (sql_value \<Rightarrow> sql_value) \<Rightarrow> (sql_value \<Rightarrow> sql_value) \<Rightarrow> sql_value \<Rightarrow> sql_value
     \<Rightarrow> query_row \<Rightarrow> query_row" where
  "update_row now real_affinity text_affinity temperature weather_conditions r =
     r\<lparr>q_temperature := coalesce real_affinity temperature (q_temperature r),
       q_weather_conditions := coalesce text_affinity weather_conditions (q_weather_conditions r),
       q_updated_at := now\<rparr>"

text \<open>
  \<^verbatim>\<open>update_query\<close>.  Without a connection it returns \<^verbatim>\<open>False\<close>.  \<^verbatim>\<open>execute\<close> prepares
  the statement, binds \<^verbatim>\<open>(temperature, weather_conditions, id)\<close> in this order and runs
  the UPDATE on the rows \<^verbatim>\<open>WHERE id = ?\<close>; an \<^verbatim>\<open>sqlite3.Error\<close> is caught and gives
  \<^verbatim>\<open>False\<close>, an \<^verbatim>\<open>OverflowError\<close> escapes.  After the commit the result is
  \<^verbatim>\<open>rowcount > 0\<close>.
\<close>

definition update_query ::
  "db_fault \<Rightarrow> int \<Rightarrow> (sql_value \<Rightarrow> sql_value) \<Rightarrow> (sql_value \<Rightarrow> sql_value)
     \<Rightarrow> int \<Rightarrow> py_param \<Rightarrow> py_param \<Rightarrow> store \<Rightarrow> (py_error + bool) \<times> store" where
  "update_query fault now real_affinity text_affinity qid temperature weather_conditions st =
     (if fault = ConnectFails then (Inr False, st)
      else if fault = PrepareFails then (Inr False, st)
      else (case bind_param temperature of
              BindOverflow \<Rightarrow> (Inl OverflowError, st)
            | BindUnsupported \<Rightarrow> (Inr False, st)
            | Bound t \<Rightarrow>
           (case bind_param weather_conditions of
              BindOverflow \<Rightarrow> (Inl OverflowError, st)
            | BindUnsupported \<Rightarrow> (Inr False, st)
            | Bound w \<Rightarrow>
           (case bind_param (PInt qid) of
              BindOverflow \<Rightarrow> (Inl OverflowError, st)
            | BindUnsupported \<Rightarrow> (Inr False, st)
            | Bound i \<Rightarrow>
                if fault = ExecuteFails then (Inr False, st)
                else let rowcount = length (filter (\<lambda>r. q_id r = qid) (rows st))
                     in (Inr (rowcount > 0),
                         st\<lparr>rows := map (\<lambda>r. if q_id r = qid
                                             then update_row now real_affinity text_affinity t w r
                                             else r)
                                       (rows st)\<rparr>)))))"

text \<open>
  \<^verbatim>\<open>insert_query\<close>, as the handler calls it, with a temperature and a description
  taken from the provider's answer: the new row's id, or \<^verbatim>\<open>None\<close>.
\<close>

definition insert_query ::
  "db_fault \<Rightarrow> int \<Rightarrow> string \<Rightarrow> string \<Rightarrow> string \<Rightarrow> string \<Rightarrow> rat option \<Rightarrow> string option
     \<Rightarrow> store \<Rightarrow> int option \<times> store" where
  "insert_query fault now location location_type date_range_start date_range_end
       temperature weather_conditions st =
     (case fault of
        ConnectFails \<Rightarrow> (None, st)
      | PrepareFails \<Rightarrow> (None, st)
      | ExecuteFails \<Rightarrow> (None, st)
      | NoFault \<Rightarrow>
          let lastrowid = last_id st + 1
          in (Some lastrowid,
              \<lparr>rows = rows st @
                 [\<lparr>q_id = lastrowid, q_location = location, q_location_type = location_type,
                   q_date_range_start = date_range_start, q_date_range_end = date_range_end,
                   q_temperature = (case temperature of None \<Rightarrow> SqlNull | Some t \<Rightarrow> SqlReal t),
                   q_weather_conditions =
                     (case weather_conditions of None \<Rightarrow> SqlNull | Some c \<Rightarrow> SqlText c),
                   q_created_at = now, q_updated_at = now\<rparr>],
               last_id = lastrowid\<rparr>))"

section \<open>RateLimiter (src/core/api_services.py)\<close>





section \<open>The handler of POST /api/weather (backend/main.py)\<close>

text \<open>The JSON of \<^verbatim>\<open>/weather\<close> and the dictionary \<^verbatim>\<open>get_current_weather\<close> makes of it.\<close>

record weather_json =
  w_temp :: rat
  w_feels_like :: rat
  w_humidity :: rat
  w_weather :: "(string \<times> string) list"
  w_wind_speed :: rat
  w_dt :: int

record current_weather =
  cw_temperature :: rat
  cw_feels_like :: rat
  cw_humidity :: rat
  cw_description :: string
  cw_wind_speed :: rat
  cw_timestamp :: int

definition get_current_weather ::
  "(string \<Rightarrow> rat option) \<Rightarrow> (request \<Rightarrow> geo_json http_result)
     \<Rightarrow> (request \<Rightarrow> weather_json http_result) \<Rightarrow> string \<Rightarrow> string \<Rightarrow> request list
     \<Rightarrow> (py_error + current_weather) \<times> request list" where
  "get_current_weather pyfloat geo_net weather_net location location_type sent =
     (case get_coordinates pyfloat geo_net location location_type sent of
        (Inl e, sent1) \<Rightarrow> (Inl e, sent1)
      | (Inr (lat, lon), sent1) \<Rightarrow>
          let req = CurrentWeather lat lon
          in (case weather_net req of
                RequestFailed m \<Rightarrow>
                  (Inl (Exception (''Error fetching weather data: '' @ m)), sent1 @ [req])
              | Body w \<Rightarrow>
                  (case w_weather w of
                     [] \<Rightarrow> (Inl IndexError, sent1 @ [req])
                   | (description, ic) # ws \<Rightarrow>
                       (Inr \<lparr>cw_temperature = w_temp w, cw_feels_like = w_feels_like w,
                             cw_humidity = w_humidity w, cw_description = description,
                             cw_wind_speed = w_wind_speed w, cw_timestamp = w_dt w\<rparr>,
                        sent1 @ [req]))))"

text \<open>\<^verbatim>\<open>str(e)\<close> of an exception.\<close>

fun str_of :: "py_error \<Rightarrow> string" where
  "str_of (ValueError m) = m"
| "str_of (KeyError k) = [CHR 0x27] @ k @ [CHR 0x27]"
| "str_of IndexError = ''list index out of range''"
| "str_of ZeroDivisionError = ''division by zero''"
| "str_of OverflowError = ''Python int too large to convert to SQLite INTEGER''"
| "str_of AttributeError = ''NoneType object has no attribute''"
| "str_of TypeError = ''argument must be str''"
| "str_of (ConnectionError m) = m"
| "str_of (Exception m) = m"

text \<open>
  What the handler sees of its surroundings, and what it can change: the requests sent
  to the providers and the store.
\<close>

record env =
  e_strptime :: "string \<Rightarrow> string + date"
  e_today :: date
  e_pyfloat :: "string \<Rightarrow> rat option"
  e_geo_net :: "request \<Rightarrow> geo_json http_result"
  e_weather_net :: "request \<Rightarrow> weather_json http_result"
  e_now :: int
  e_db_fault :: db_fault

record world =
  net_log :: "request list"
  db :: store

datatype api_error =
    ValidationError string
  | NotFoundError string
  | ExternalAPIError string string
  | Unhandled py_error

text \<open>The loop over \<^verbatim>\<open>required_fields\<close>: the first field that is not in the request.\<close>

fun first_missing :: "string list \<Rightarrow> (string \<Rightarrow> pyval option) \<Rightarrow> string option" where
  "first_missing [] data = None"
| "first_missing (field # rest) data =
     (if data field = None then Some field else first_missing rest data)"

definition required_fields :: "string list" where
  "required_fields = [''location'', ''date_range_start'', ''date_range_end'']"

text \<open>
  \<^verbatim>\<open>create_weather_query\<close>.  The request body is a JSON object, a dictionary from names
  to values.  A date that is not a string makes \<^verbatim>\<open>strptime\<close> raise a \<^verbatim>\<open>TypeError\<close>,
  which the handler does not catch.  The result is the \<^verbatim>\<open>id\<close> of the 201 response.
  \<open>validate\<close> never returns a valid result without a type, so the branch for it below
  is never taken.
\<close>

definition create_weather_query ::
  "env \<Rightarrow> (string \<Rightarrow> pyval option) \<Rightarrow> world \<Rightarrow> (api_error + int option) \<times> world" where
  "create_weather_query ev data w =
     (case first_missing required_fields data of
        Some field \<Rightarrow> (Inl (ValidationError (''Missing required field: '' @ field)), w)
      | None \<Rightarrow>
     (case data ''location'' of
        None \<Rightarrow> (Inl (Unhandled (KeyError ''location'')), w)
      | Some loc \<Rightarrow>
     (case validate loc of
        (False, message, location_type) \<Rightarrow> (Inl (ValidationError message), w)
      | (True, message, None) \<Rightarrow> (Inl (Unhandled TypeError), w)
      | (True, message, Some location_type) \<Rightarrow>
     (case (loc, data ''date_range_start'', data ''date_range_end'') of
        (PyStr location, Some (PyStr start_s), Some (PyStr end_s)) \<Rightarrow>
          (case validate_dates (e_strptime ev) (e_today ev) start_s end_s of
             (False, message, date_range) \<Rightarrow> (Inl (ValidationError message), w)
           | (True, message, date_range) \<Rightarrow>
               (case get_current_weather (e_pyfloat ev) (e_geo_net ev) (e_weather_net ev)
                       location location_type (net_log w) of
                  (Inl e, sent) \<Rightarrow>
                    (Inl (ExternalAPIError (str_of e) ''OpenWeather''), w\<lparr>net_log := sent\<rparr>)
                | (Inr weather_data, sent) \<Rightarrow>
                    (case insert_query (e_db_fault ev) (e_now ev) location location_type
                            start_s end_s (Some (cw_temperature weather_data))
                            (Some (cw_description weather_data)) (db w) of
                       (query_id, db') \<Rightarrow> (Inr query_id, \<lparr>net_log = sent, db = db'\<rparr>))))
      | other \<Rightarrow> (Inl (Unhandled TypeError), w)))))"

subsection \<open>A concrete request\<close>

text \<open>
  The surroundings on 2024-01-15 with the providers unreachable, a request for ZIP 10001
  over ten days, and a store with two rows.
\<close>

definition env_2024_01_15 :: env where
  "env_2024_01_15 =
     \<lparr>e_strptime = iso_date, e_today = 738900, e_pyfloat = (\<lambda>s. None),
      e_geo_net = (\<lambda>r. RequestFailed ''unreachable''),
      e_weather_net = (\<lambda>r. RequestFailed ''unreachable''),
      e_now = 1705312800, e_db_fault = NoFault\<rparr>"

definition ten_day_request :: "string \<Rightarrow> pyval option" where
  "ten_day_request =
     (\<lambda>k. if k = ''location'' then Some (PyStr ''10001'')
          else if k = ''date_range_start'' then Some (PyStr ''2024-01-01'')
          else if k = ''date_range_end'' then Some (PyStr ''2024-01-10'')
          else None)"

definition two_rows :: store where
  "two_rows =
     \<lparr>rows =
        [\<lparr>q_id = 1, q_location = ''10001'', q_location_type = ''zip'',
          q_date_range_start = ''2024-01-12'', q_date_range_end = ''2024-01-14'',
          q_temperature = SqlReal 4, q_weather_conditions = SqlText ''clear sky'',
          q_created_at = 1705000000, q_updated_at = 1705000000\<rparr>,
         \<lparr>q_id = 2, q_location = ''Paris, France'', q_location_type = ''city'',
          q_date_range_start = ''2024-01-13'', q_date_range_end = ''2024-01-15'',
          q_temperature = SqlNull, q_weather_conditions = SqlNull,
          q_created_at = 1705100000, q_updated_at = 1705100000\<rparr>],
      last_id = 2\<rparr>"

section \<open>Properties of LocationValidator.validate\<close>

lemma first_match_PATTERNS:
  "first_match PATTERNS s = Some t \<Longrightarrow> t \<in> {''zip'', ''coordinates'', ''city'', ''landmark''}"
  by (auto simp: PATTERNS_def split: if_splits)

lemma validate_cases:
  "(\<exists>s m t. x = PyStr s \<and> validate x = (True, m, Some t)
          \<and> t \<in> {''zip'', ''coordinates'', ''city'', ''landmark''})
   \<or> (\<exists>m. validate x = (False, m, None))"
proof (cases x)
  case PyNonStr
  then show ?thesis by simp
next
  case (PyStr s)
  show ?thesis
  proof (cases "first_match PATTERNS (strip s)")
    case None
    then show ?thesis using PyStr by (simp add: validate_str_def Let_def)
  next
    case (Some t)
    then have "t \<in> {''zip'', ''coordinates'', ''city'', ''landmark''}"
      by (rule first_match_PATTERNS)
    then show ?thesis using PyStr Some by (auto simp: validate_str_def Let_def)
  qed
qed

text \<open>
  Claim C9.  For every input value, \<^verbatim>\<open>LocationValidator.validate\<close> returns either
  \<^verbatim>\<open>(True, message, t)\<close> with \<^verbatim>\<open>t\<close> one of zip, coordinates, city, landmark, or
  \<^verbatim>\<open>(False, message, None)\<close>: never valid with no type, never invalid with a type.
\<close>

theorem validate_result_shape:
  "(\<exists>m t. validate x = (True, m, Some t)
          \<and> t \<in> {''zip'', ''coordinates'', ''city'', ''landmark''})
   \<or> (\<exists>m. validate x = (False, m, None))"
  using validate_cases [of x] by blast

section \<open>Properties of date-range validation\<close>

lemmas date_eval = iso_date_def is_digit_def nat_of_digits_def digit_val_def days_in_month_def
  ymd_to_ord_def days_before_year_def days_before_month_def is_leap_def

lemma iso_date_2024_01_01: "iso_date ''2024-01-01'' = Inr 738886"
  by (simp add: date_eval)

lemma iso_date_2024_01_10: "iso_date ''2024-01-10'' = Inr 738895"
  by (simp add: date_eval)

lemma iso_date_2024_01_15: "iso_date ''2024-01-15'' = Inr 738900"
  by (simp add: date_eval)

lemma show_nat_consts: "show_nat 5 = ''5''" "show_nat 7 = ''7''"
  by (simp_all add: show_nat.simps)

text \<open>
  \<^verbatim>\<open>DateRangeValidator.validate\<close> checks the span before the two bounds: a range of
  more than 5 days is reported as such wherever it lies relative to today.
\<close>

lemma validate_dates_span_first:
  assumes "strptime a = Inr s" and "strptime b = Inr e" and "s \<le> e" and "e - s > 5"
  shows "validate_dates strptime today a b
           = (False, ''Date range cannot exceed 5 days'', None)"
  using assms by (simp add: validate_dates_def Let_def show_nat_consts MAX_RANGE_DAYS_def)

text \<open>
  \<^verbatim>\<open>WeatherService.validate_date_range\<close> rejects such a range too, but checks the two
  bounds first, so the message is the span message only when both bounds hold.
\<close>

lemma validate_date_range_span_rejected:
  assumes "strptime a = Inr s" and "strptime b = Inr e" and "s \<le> e" and "e - s > 5"
  shows "validate_date_range strptime today a b =
           Inl (''Date validation error: '' @
             (if s < today - 7 then ''Start date cannot be more than 7 days in the past''
              else if e > today + 5 then ''End date cannot be more than 5 days in the future''
              else ''Date range cannot exceed 5 days''))"
  using assms by (simp add: validate_date_range_def validate_date_range_body_def Let_def)

text \<open>
  Claim C1.  A range of more than 5 days between two dates that parse, start before end,
  is rejected with the message of the 5-day limit even when a bound is violated too: the
  span check comes before the bound checks.  \<^verbatim>\<open>DateRangeValidator.validate\<close> does so
  (\<open>validate_dates_span_first\<close>); \<^verbatim>\<open>WeatherService.validate_date_range\<close> does not.  On
  2024-01-15, for the range 2024-01-01 to 2024-01-10 (9 days, starting 14 days back), the
  first reports the 5-day limit and the second reports the 7-days-past bound.
\<close>

theorem validate_date_range_bound_before_span:
  "validate_dates iso_date 738900 ''2024-01-01'' ''2024-01-10''
     = (False, ''Date range cannot exceed 5 days'', None)
   \<and> validate_date_range iso_date 738900 ''2024-01-01'' ''2024-01-10''
       = Inl ''Date validation error: Start date cannot be more than 7 days in the past''"
  by (simp add: validate_dates_def validate_date_range_def validate_date_range_body_def
        iso_date_2024_01_01 iso_date_2024_01_10 show_nat_consts MAX_RANGE_DAYS_def)

section \<open>Properties of forecast aggregation\<close>

lemma py_min_Min: "py_min x xs = Min (set (x # xs))"
proof (induction xs arbitrary: x)
  case Nil
  then show ?case by (simp add: py_min_def)
next
  case (Cons y ys)
  have "py_min x (y # ys) = py_min (min y x) ys"
    by (simp add: py_min_def min_def)
  also have "\<dots> = Min (set (min y x # ys))" by (rule Cons.IH)
  also have "\<dots> = Min (set (x # y # ys))"
    by (cases "ys = []") (auto simp: min_def Min_insert2 ac_simps intro: antisym)
  finally show ?case .
qed

lemma py_max_Max: "py_max x xs = Max (set (x # xs))"
proof (induction xs arbitrary: x)
  case Nil
  then show ?case by (simp add: py_max_def)
next
  case (Cons y ys)
  have "py_max x (y # ys) = py_max (max y x) ys"
    by (simp add: py_max_def max_def)
  also have "\<dots> = Max (set (max y x # ys))" by (rule Cons.IH)
  also have "\<dots> = Max (set (x # y # ys))"
    by (cases "ys = []") (auto simp: max_def ac_simps intro: antisym)
  finally show ?case .
qed

lemma backend_loop_run:
  "\<forall>x\<in>set xs. date_of (dt x) = d \<Longrightarrow>
   backend_loop avg date_of (xs @ rest) out (Some d) temps
     = backend_loop avg date_of rest out (Some d) (temps @ map temp xs)"
  by (induction xs arbitrary: temps) (simp_all add: Let_def)


lemma summarise_nonempty:
  "ts \<noteq> [] \<Longrightarrow> summarise avg d ts =
     Inr \<lparr>day = d, average_temp = avg ts, min_temp = Min (set ts), max_temp = Max (set ts)\<rparr>"
  by (cases ts) (simp_all add: summarise_def py_min_Min py_max_Max)

lemma forecast_backend_two_runs:
  assumes xs: "xs \<noteq> []" "\<forall>x\<in>set xs. date_of (dt x) = d1"
      and ys: "ys \<noteq> []" "\<forall>y\<in>set ys. date_of (dt y) = d2"
      and ne: "d1 \<noteq> d2"
  shows "forecast_backend avg date_of (xs @ ys) =
           Inr [\<lparr>day = d1, average_temp = avg (map temp xs),
                  min_temp = Min (temp ` set xs), max_temp = Max (temp ` set xs)\<rparr>,
                \<lparr>day = d2, average_temp = avg (map temp ys),
                  min_temp = Min (temp ` set ys), max_temp = Max (temp ` set ys)\<rparr>]"
proof -
  obtain x xs' where x: "xs = x # xs'" using xs(1) by (cases xs) auto
  obtain y ys' where y: "ys = y # ys'" using ys(1) by (cases ys) auto
  have dx: "date_of (dt x) = d1" and dxs: "\<forall>x\<in>set xs'. date_of (dt x) = d1"
    using xs(2) x by auto
  have dy: "date_of (dt y) = d2" and dys: "\<forall>x\<in>set ys'. date_of (dt x) = d2"
    using ys(2) y by auto
  have "backend_loop avg date_of (xs @ ys) [] None []
          = backend_loop avg date_of (xs' @ ys) [] (Some d1) [temp x]"
    by (simp add: x dx)
  also have "\<dots> = backend_loop avg date_of ys [] (Some d1) (map temp xs)"
    using backend_loop_run [OF dxs] by (simp add: x)
  also have "\<dots> = backend_loop avg date_of (ys' @ [])
                      [\<lparr>day = d1, average_temp = avg (map temp xs),
                        min_temp = Min (temp ` set xs), max_temp = Max (temp ` set xs)\<rparr>]
                      (Some d2) [temp y]"
    using ne xs(1) by (simp add: y dy summarise_nonempty)
  also have "\<dots> = Inr ([\<lparr>day = d1, average_temp = avg (map temp xs),
                        min_temp = Min (temp ` set xs), max_temp = Max (temp ` set xs)\<rparr>],
                      Some d2, map temp ys)"
    using backend_loop_run [OF dys, where rest = "[]"] by (simp add: y)
  finally show ?thesis
    using ys(1) by (simp add: forecast_backend_def summarise_nonempty)
qed

lemma dict_append_new:
  "d \<notin> fst ` set kvs \<Longrightarrow> dict_append kvs d item = kvs @ [(d, [item])]"
  by (induction kvs d item rule: dict_append.induct) auto

lemma dict_append_last:
  "d \<notin> fst ` set kvs \<Longrightarrow> dict_append (kvs @ [(d, v)]) d item = kvs @ [(d, v @ [item])]"
  by (induction kvs d item rule: dict_append.induct) auto

lemma group_run:
  "\<forall>x\<in>set xs. date_of (dt x) = d \<Longrightarrow> d \<notin> fst ` set kvs \<Longrightarrow>
   foldl (\<lambda>acc item. dict_append acc (date_of (dt item)) item) (kvs @ [(d, v)]) xs
     = kvs @ [(d, v @ xs)]"
  by (induction xs arbitrary: v) (simp_all add: dict_append_last)

lemma group_by_day_two_runs:
  assumes xs: "xs \<noteq> []" "\<forall>x\<in>set xs. date_of (dt x) = d1"
      and ys: "ys \<noteq> []" "\<forall>y\<in>set ys. date_of (dt y) = d2"
      and ne: "d1 \<noteq> d2"
  shows "group_by_day date_of (xs @ ys) = [(d1, xs), (d2, ys)]"
proof -
  obtain x xs' where x: "xs = x # xs'" using xs(1) by (cases xs) auto
  obtain y ys' where y: "ys = y # ys'" using ys(1) by (cases ys) auto
  have dx: "date_of (dt x) = d1" and dxs: "\<forall>x\<in>set xs'. date_of (dt x) = d1"
    using xs(2) x by auto
  have dy: "date_of (dt y) = d2" and dys: "\<forall>x\<in>set ys'. date_of (dt x) = d2"
    using ys(2) y by auto
  let ?step = "\<lambda>acc item. dict_append acc (date_of (dt item)) item"
  have "foldl ?step [] xs = foldl ?step ([] @ [(d1, [x])]) xs'"
    by (simp add: x dx)
  also have "\<dots> = [(d1, xs)]"
    using group_run [OF dxs, of "[]" "[x]"] by (simp add: x)
  finally have 1: "foldl ?step [] xs = [(d1, xs)]" .
  have "foldl ?step [(d1, xs)] ys = foldl ?step ([(d1, xs)] @ [(d2, [y])]) ys'"
    using ne by (simp add: y dy)
  also have "\<dots> = [(d1, xs), (d2, ys)]"
    using group_run [OF dys, of "[(d1, xs)]" "[y]"] ne by (simp add: y)
  finally show ?thesis
    by (simp add: group_by_day_def 1)
qed

lemma traverse_weather0:
  "\<forall>x\<in>set xs. weather x \<noteq> [] \<Longrightarrow> traverse weather0 xs = Inr (map (\<lambda>x. hd (weather x)) xs)"
  by (induction xs) (auto simp: weather0_def split: list.splits)

lemma py_count_Dict_Tuple: "py_count (map Dict items) (Tuple x y) = 0"
  by (induction items) (simp_all add: py_count_def)

lemma max_key_zero: "(\<And>x. f x = 0) \<Longrightarrow> max_key f best xs = best"
  by (induction xs) simp_all

lemma most_common_is_first:
  "max_key (\<lambda>(x, y). py_count (map Dict items) (Tuple x y)) w ws = w"
  by (rule max_key_zero) (simp add: py_count_Dict_Tuple split: prod.splits)

lemma day_forecast_nonempty:
  assumes "items \<noteq> []" and "\<forall>x\<in>set items. weather x \<noteq> []"
  shows "day_forecast d items =
           Inr \<lparr>fdate = d, temp_min = Min (temp ` set items), temp_max = Max (temp ` set items),
                 condition = fst (hd (weather (hd items))), icon = snd (hd (weather (hd items))),
                 precipitation_prob = Max (pop_or_0 ` set items)\<rparr>"
proof -
  obtain i "is" where i: "items = i # is" using assms(1) by (cases items) auto
  have tr: "traverse weather0 items = Inr (hd (weather i) # map (\<lambda>x. hd (weather x)) is)"
    using traverse_weather0 [OF assms(2)] by (simp add: i)
  show ?thesis
    apply (simp only: day_forecast_def tr most_common_is_first sum.case list.case Let_def)
    apply (simp add: i py_min_Min py_max_Max)
    done
qed



lemma traverse_length: "traverse f xs = Inr ys \<Longrightarrow> length ys = length xs"
  by (induction xs arbitrary: ys) (auto split: sum.splits)

text \<open>The desktop variant keeps the first five days of the dictionary.\<close>

lemma forecast_core_at_most_5: "forecast_core date_of items = Inr out \<Longrightarrow> length out \<le> 5"
  by (auto simp: forecast_core_def dest: traverse_length)

text \<open>
  Claim C3.  Sixteen samples in timestamp order, eight on one date and then eight on
  another, give exactly two daily entries, in both variants, and the minimum and maximum
  temperature of each entry are those of the samples of its date.
\<close>

theorem two_full_days:
  assumes "length xs = 8" and "length ys = 8"
      and "\<forall>x\<in>set xs. date_of (dt x) = d1" and "\<forall>y\<in>set ys. date_of (dt y) = d2"
      and "d1 \<noteq> d2"
      and "\<forall>x\<in>set (xs @ ys). weather x \<noteq> []"
  shows "(\<exists>a b. forecast_backend avg date_of (xs @ ys) = Inr [a, b]
            \<and> day a = d1 \<and> min_temp a = Min (temp ` set xs) \<and> max_temp a = Max (temp ` set xs)
            \<and> day b = d2 \<and> min_temp b = Min (temp ` set ys) \<and> max_temp b = Max (temp ` set ys))
       \<and> (\<exists>a b. forecast_core date_of (xs @ ys) = Inr [a, b]
            \<and> fdate a = d1 \<and> temp_min a = Min (temp ` set xs) \<and> temp_max a = Max (temp ` set xs)
            \<and> fdate b = d2 \<and> temp_min b = Min (temp ` set ys) \<and> temp_max b = Max (temp ` set ys))"
proof -
  have xs: "xs \<noteq> []" and ys: "ys \<noteq> []"
    using assms(1,2) by auto
  have wx: "\<forall>x\<in>set xs. weather x \<noteq> []" and wy: "\<forall>x\<in>set ys. weather x \<noteq> []"
    using assms(6) by auto
  have "forecast_core date_of (xs @ ys) =
          traverse (\<lambda>(d, its). day_forecast d its) [(d1, xs), (d2, ys)]"
    by (simp add: forecast_core_def
          group_by_day_two_runs [OF xs assms(3) ys assms(4) assms(5)])
  then have core: "\<exists>a b. forecast_core date_of (xs @ ys) = Inr [a, b]
            \<and> fdate a = d1 \<and> temp_min a = Min (temp ` set xs) \<and> temp_max a = Max (temp ` set xs)
            \<and> fdate b = d2 \<and> temp_min b = Min (temp ` set ys) \<and> temp_max b = Max (temp ` set ys)"
    by (simp add: day_forecast_nonempty [OF xs wx] day_forecast_nonempty [OF ys wy])
  have backend: "\<exists>a b. forecast_backend avg date_of (xs @ ys) = Inr [a, b]
            \<and> day a = d1 \<and> min_temp a = Min (temp ` set xs) \<and> max_temp a = Max (temp ` set xs)
            \<and> day b = d2 \<and> min_temp b = Min (temp ` set ys) \<and> max_temp b = Max (temp ` set ys)"
    by (simp add: forecast_backend_two_runs [OF xs assms(3) ys assms(4) assms(5)])
  show ?thesis using backend core by (rule conjI)
qed

theorem two_full_days_witness:
  "(\<exists>a b. forecast_backend exact_mean utc_date
             (eight_samples 1623283200 10 @ eight_samples 1623369600 20) = Inr [a, b]
        \<and> day a = 737951 \<and> min_temp a = 10 \<and> max_temp a = 17
        \<and> day b = 737952 \<and> min_temp b = 20 \<and> max_temp b = 27)
   \<and> (\<exists>a b. forecast_core utc_date
             (eight_samples 1623283200 10 @ eight_samples 1623369600 20) = Inr [a, b]
        \<and> fdate a = 737951 \<and> temp_min a = 10 \<and> temp_max a = 17
        \<and> fdate b = 737952 \<and> temp_min b = 20 \<and> temp_max b = 27)"
proof -
  let ?xs = "eight_samples 1623283200 10" and ?ys = "eight_samples 1623369600 20"
  have 1: "length ?xs = 8" and 2: "length ?ys = 8"
    by (simp_all add: eight_samples_def)
  have 3: "\<forall>x\<in>set ?xs. utc_date (dt x) = 737951"
    by (simp add: eight_samples_def sample_def utc_date_def)
  have 4: "\<forall>y\<in>set ?ys. utc_date (dt y) = 737952"
    by (simp add: eight_samples_def sample_def utc_date_def)
  have 5: "(737951 :: int) \<noteq> 737952" by simp
  have 6: "\<forall>x\<in>set (?xs @ ?ys). weather x \<noteq> []"
    by (simp add: eight_samples_def sample_def)
  have mx: "Min (temp ` set ?xs) = 10" "Max (temp ` set ?xs) = 17"
    by (simp_all add: eight_samples_def sample_def)
  have my: "Min (temp ` set ?ys) = 20" "Max (temp ` set ?ys) = 27"
    by (simp_all add: eight_samples_def sample_def)
  show ?thesis
    using two_full_days [OF 1 2 3 4 5 6, of exact_mean] unfolding mx my .
qed

text \<open>
  Claim C4.  The aggregation returns at most five daily entries, also when the samples
  span more than five dates.  The desktop variant does (\<open>forecast_core_at_most_5\<close>); the
  backend variant has no limit: for the 40 samples of a five-day request made at noon it
  returns six entries.
\<close>

theorem forecast_backend_six_entries:
  "map_sum id (map day) (forecast_backend exact_mean utc_date forty_samples)
     = Inr [737951, 737952, 737953, 737954, 737955, 737956]"
  by (simp add: forty_samples_def eight_samples_def sample_def utc_date_def forecast_backend_def
        summarise_def Let_def)

text \<open>
  Claim C2.  The daily summary of the desktop variant carries the most frequent
  (description, icon) pair of the date.  The key of \<^verbatim>\<open>max\<close> counts the pair among the
  provider's dictionaries, where it never occurs, so every pair has count 0 and the
  summary carries the pair of the date's first sample (\<open>day_forecast_nonempty\<close>): for one
  sample of light rain followed by two of clear sky it reports light rain.
\<close>

theorem forecast_core_reports_first_sample:
  "forecast_core utc_date rain_then_clear =
     Inr [\<lparr>fdate = 737951, temp_min = 15, temp_max = 18,
           condition = ''light rain'', icon = ''10d'', precipitation_prob = 0\<rparr>]"
  by (simp add: rain_then_clear_def sample_def utc_date_def forecast_core_def group_by_day_def
        day_forecast_def weather0_def py_count_def py_min_def py_max_def pop_or_0_def Let_def)

section \<open>Properties of location resolution\<close>

text \<open>
  Claim C5, as stated, fails for the desktop variant: on an empty answer
  \<^verbatim>\<open>geocode_location\<close> returns \<^verbatim>\<open>None\<close>, as its docstring and its test say.
\<close>

theorem geocode_location_empty_returns_None:
  "geocode_location (Body (JList [])) ''NonexistentCity'' [] = (Inr None, [])"
  by (simp add: geocode_location_def)


text \<open>
  Claim C5, amended.  For a location that is not of type coordinates: the backend
  \<^verbatim>\<open>_get_coordinates\<close> fails with the \<^verbatim>\<open>ValueError\<close> "Location not found" when the
  answer is an empty array, null or an object without \<^verbatim>\<open>lat\<close>, and with
  \<^verbatim>\<open>Exception\<close> "Error fetching coordinates" when the transport fails; the desktop
  \<^verbatim>\<open>geocode_location\<close> returns \<^verbatim>\<open>None\<close> and writes no history when the answer is an
  empty array or null, and fails with \<^verbatim>\<open>ConnectionError\<close> when the transport fails.
\<close>

theorem location_resolution_failures:
  assumes "location_type \<noteq> ''coordinates''"
      and "data = JList [] \<or> data = JNull \<or> (\<exists>obj. data = JObj obj \<and> g_lat obj = None)"
  shows "get_coordinates pyfloat (\<lambda>r. Body data) location location_type sent
           = (Inl (ValueError (''Location not found: '' @ location)),
              sent @ [geo_request location location_type])
       \<and> get_coordinates pyfloat (\<lambda>r. RequestFailed m) location location_type sent
           = (Inl (Exception (''Error fetching coordinates: '' @ m)),
              sent @ [geo_request location location_type])
       \<and> ((data = JList [] \<or> data = JNull) \<longrightarrow>
            geocode_location (Body data) location history = (Inr None, history))
       \<and> geocode_location (RequestFailed m) location history
           = (Inl (ConnectionError (''Failed to geocode location: '' @ m)), history)"
  using assms by (auto simp: get_coordinates_def geocode_location_def Let_def)

theorem location_resolution_failures_witness:
  "get_coordinates (\<lambda>s. None) (\<lambda>r. Body (JList [])) ''Atlantis'' ''city'' []
           = (Inl (ValueError ''Location not found: Atlantis''), [GeoDirect ''Atlantis''])
       \<and> get_coordinates (\<lambda>s. None) (\<lambda>r. RequestFailed ''timeout'') ''Atlantis'' ''city'' []
           = (Inl (Exception ''Error fetching coordinates: timeout''), [GeoDirect ''Atlantis''])
       \<and> geocode_location (Body (JList [])) ''Atlantis'' [] = (Inr None, [])
       \<and> geocode_location (RequestFailed ''timeout'') ''Atlantis'' []
           = (Inl (ConnectionError ''Failed to geocode location: timeout''), [])"
  using location_resolution_failures [of "''city''" "JList []" "\<lambda>s. None" "''Atlantis''" "[]"
          "''timeout''" "[]"]
  by (simp add: geo_request_def)


section \<open>Properties of the store\<close>

text \<open>
  Claim C10, as stated, fails in its last part: without a connection \<^verbatim>\<open>update_query\<close>
  returns \<^verbatim>\<open>False\<close> although a row has the id.
\<close>

theorem update_query_no_connection:
  "update_query ConnectFails 1705312800 id id 1 PNone (PStr ''light rain'') two_rows
     = (Inr False, two_rows)
   \<and> q_id (rows two_rows ! 0) = 1"
  by (simp add: update_query_def two_rows_def)

text \<open>
  Claim C10, amended.  \<^verbatim>\<open>update_query(id, temperature, weather_conditions)\<close> keeps the
  number and order of the rows; a row with another id is unchanged; in a row with that id
  only \<^verbatim>\<open>temperature\<close>, \<^verbatim>\<open>weather_conditions\<close> and \<^verbatim>\<open>updated_at\<close> may change, and a
  column whose argument is \<^verbatim>\<open>None\<close> keeps its value.  The call returns \<^verbatim>\<open>True\<close> only
  when a row has that id, and it does return \<^verbatim>\<open>True\<close> for such a row when the database
  is reached, the parameters can be bound and no \<^verbatim>\<open>sqlite3.Error\<close> is raised; without
  a connection or with a statement that cannot be prepared it returns \<^verbatim>\<open>False\<close>, and
  whenever the connection or the statement fails the store is unchanged.
\<close>

theorem update_query_frame:
  assumes "update_query fault now real_affinity text_affinity qid temperature weather_conditions st
             = (res, st')"
  shows "length (rows st') = length (rows st) \<and> last_id st' = last_id st
       \<and> (\<forall>i < length (rows st).
             (q_id (rows st ! i) \<noteq> qid \<longrightarrow> rows st' ! i = rows st ! i)
           \<and> q_id (rows st' ! i) = q_id (rows st ! i)
           \<and> q_location (rows st' ! i) = q_location (rows st ! i)
           \<and> q_location_type (rows st' ! i) = q_location_type (rows st ! i)
           \<and> q_date_range_start (rows st' ! i) = q_date_range_start (rows st ! i)
           \<and> q_date_range_end (rows st' ! i) = q_date_range_end (rows st ! i)
           \<and> q_created_at (rows st' ! i) = q_created_at (rows st ! i)
           \<and> (temperature = PNone \<longrightarrow> q_temperature (rows st' ! i) = q_temperature (rows st ! i))
           \<and> (weather_conditions = PNone \<longrightarrow>
                 q_weather_conditions (rows st' ! i) = q_weather_conditions (rows st ! i)))
       \<and> (fault = NoFault \<and> (\<exists>t. bind_param temperature = Bound t)
            \<and> (\<exists>w. bind_param weather_conditions = Bound w)
            \<and> (\<exists>i. bind_param (PInt qid) = Bound i)
            \<longrightarrow> res = Inr (\<exists>r \<in> set (rows st). q_id r = qid))
       \<and> (res = Inr True \<longrightarrow> fault = NoFault \<and> (\<exists>r \<in> set (rows st). q_id r = qid))
       \<and> (fault = ConnectFails \<or> fault = PrepareFails \<longrightarrow> res = Inr False)
       \<and> (fault \<noteq> NoFault \<longrightarrow> st' = st)"
  using assms
  by (cases fault)
     (auto simp: update_query_def Let_def update_row_def coalesce_def filter_empty_conv
                 bind_param_def
           split: bound.splits if_splits py_param.splits)


theorem update_query_frame_witness:
  "update_query NoFault 1705312800 id id 1 PNone (PStr ''light rain'') two_rows
     = (Inr True,
        two_rows\<lparr>rows := [(rows two_rows ! 0)\<lparr>q_weather_conditions := SqlText ''light rain'',
                                                q_updated_at := 1705312800\<rparr>,
                            rows two_rows ! 1]\<rparr>)
   \<and> q_temperature (rows (snd (update_query NoFault 1705312800 id id 1 PNone
                                  (PStr ''light rain'') two_rows)) ! 0) = SqlReal 4
   \<and> (\<exists>r \<in> set (rows two_rows). q_id r = 1)"
proof -
  have h: "update_query NoFault 1705312800 id id 1 PNone (PStr ''light rain'') two_rows
     = (Inr True,
        two_rows\<lparr>rows := [(rows two_rows ! 0)\<lparr>q_weather_conditions := SqlText ''light rain'',
                                                q_updated_at := 1705312800\<rparr>,
                            rows two_rows ! 1]\<rparr>)"
    by (simp add: update_query_def update_row_def coalesce_def bind_param_def two_rows_def)
  have t: "q_temperature (rows two_rows ! 0) = SqlReal 4"
    by (simp add: two_rows_def)
  have n: "(0::nat) < length (rows two_rows)"
    by (simp add: two_rows_def)
  from update_query_frame [OF h] n t
  have "q_temperature (rows (two_rows\<lparr>rows := [(rows two_rows ! 0)\<lparr>q_weather_conditions := SqlText ''light rain'',
                                                q_updated_at := 1705312800\<rparr>,
                            rows two_rows ! 1]\<rparr>) ! 0) = SqlReal 4
        \<and> (\<exists>r \<in> set (rows two_rows). q_id r = 1)"
    by simp
  then show ?thesis using h by simp
qed

section \<open>Properties of the rate limiter\<close>





section \<open>Properties of the handler\<close>

lemma first_missing_none:
  assumes "data ''location'' = Some loc" and "data ''date_range_start'' = Some a"
      and "data ''date_range_end'' = Some b"
  shows "first_missing required_fields data = None"
  using assms by (simp add: required_fields_def)

text \<open>
  Claim C6.  A request to create a weather query whose location or date range does not
  validate is answered with a \<^verbatim>\<open>ValidationError\<close> carrying the validator's message;
  no request has been sent to a provider and no row has been written.
\<close>

theorem create_weather_query_fails_fast:
  assumes "data ''location'' = Some loc"
      and "data ''date_range_start'' = Some (PyStr start_s)"
      and "data ''date_range_end'' = Some (PyStr end_s)"
      and "\<not> fst (validate loc)
           \<or> \<not> fst (validate_dates (e_strptime ev) (e_today ev) start_s end_s)"
  shows "create_weather_query ev data w =
           (Inl (ValidationError
                  (if \<not> fst (validate loc) then fst (snd (validate loc))
                   else fst (snd (validate_dates (e_strptime ev) (e_today ev) start_s end_s)))),
            w)"
proof -
  have fm: "first_missing required_fields data = None"
    using assms(1-3) by (rule first_missing_none)
  show ?thesis
  proof (cases "fst (validate loc)")
    case False
    then obtain m t where v: "validate loc = (False, m, t)"
      by (cases "validate loc") auto
    show ?thesis
      by (simp add: create_weather_query_def fm assms(1) v)
  next
    case True
    then obtain s m t where l: "loc = PyStr s" and v: "validate loc = (True, m, Some t)"
      using validate_cases [of loc] by auto
    from True assms(4)
    obtain m' d where vd: "validate_dates (e_strptime ev) (e_today ev) start_s end_s = (False, m', d)"
      by (cases "validate_dates (e_strptime ev) (e_today ev) start_s end_s") auto
    show ?thesis
      using v vd by (simp add: create_weather_query_def fm assms(1-3) l)
  qed
qed

text \<open>Whenever the handler answers with a validation error, nothing has changed.\<close>

lemma create_weather_query_validation_error_no_effect:
  "create_weather_query ev data w = (Inl (ValidationError m), w') \<Longrightarrow> w' = w"
  by (auto simp: create_weather_query_def split: option.splits prod.splits bool.splits
        pyval.splits sum.splits)


theorem create_weather_query_fails_fast_witness:
  "create_weather_query env_2024_01_15 ten_day_request \<lparr>net_log = [], db = two_rows\<rparr>
     = (Inl (ValidationError ''Date range cannot exceed 5 days''),
        \<lparr>net_log = [], db = two_rows\<rparr>)"
proof -
  have l: "ten_day_request ''location'' = Some (PyStr ''10001'')"
    and a: "ten_day_request ''date_range_start'' = Some (PyStr ''2024-01-01'')"
    and b: "ten_day_request ''date_range_end'' = Some (PyStr ''2024-01-10'')"
    by (simp_all add: ten_day_request_def)
  have v: "validate (PyStr ''10001'') = (True, ''Valid location format'', Some ''zip'')"
    by (simp add: validate_str_def strip_def is_space_def PATTERNS_def zip_rx_def opt_def
          chr_def is_digit_def numeral_nat)
  have d: "validate_dates (e_strptime env_2024_01_15) (e_today env_2024_01_15)
             ''2024-01-01'' ''2024-01-10'' = (False, ''Date range cannot exceed 5 days'', None)"
    by (simp add: env_2024_01_15_def validate_dates_def iso_date_2024_01_01
          iso_date_2024_01_10 show_nat_consts MAX_RANGE_DAYS_def)
  have h: "\<not> fst (validate (PyStr ''10001''))
           \<or> \<not> fst (validate_dates (e_strptime env_2024_01_15) (e_today env_2024_01_15)
                      ''2024-01-01'' ''2024-01-10'')"
    by (simp add: d)
  show ?thesis
    using create_weather_query_fails_fast [OF l a b h, of "\<lparr>net_log = [], db = two_rows\<rparr>"]
    unfolding v d by simp
qed

section \<open>Properties of the patterns and of normalize_location\<close>

text \<open>What the matcher accepts, pattern by pattern.\<close>

lemma re_match_Nul [simp]: "\<not> re_match Nul w"
  by (induction w) auto

lemma re_match_Eps [simp]: "re_match Eps w \<longleftrightarrow> w = []"
  by (cases w) auto

lemma re_match_Cls [simp]: "re_match (Cls p) w \<longleftrightarrow> (\<exists>c. w = [c] \<and> p c)"
  by (cases w) auto

lemma re_match_Alt [simp]: "re_match (Alt r s) w \<longleftrightarrow> re_match r w \<or> re_match s w"
  by (induction w arbitrary: r s) auto

lemma re_match_Cat:
  "re_match (Cat r s) w \<longleftrightarrow> (\<exists>u v. w = u @ v \<and> re_match r u \<and> re_match s v)"
proof (induction w arbitrary: r s)
  case Nil
  then show ?case by simp
next
  case (Cons c cs)
  have split: "(\<exists>u v. c # cs = u @ v \<and> re_match r u \<and> re_match s v) \<longleftrightarrow>
        (nullable r \<and> re_match (deriv c s) cs)
        \<or> (\<exists>u v. cs = u @ v \<and> re_match (deriv c r) u \<and> re_match s v)"
    (is "?L \<longleftrightarrow> ?A \<or> ?B")
  proof
    assume ?L
    then obtain u v where uv: "c # cs = u @ v" "re_match r u" "re_match s v" by blast
    show "?A \<or> ?B"
    proof (cases u)
      case Nil
      then show ?thesis using uv by auto
    next
      case (Cons d u')
      then have "cs = u' @ v" "re_match (deriv c r) u'" using uv by auto
      then show ?thesis using uv(3) by blast
    qed
  next
    assume "?A \<or> ?B"
    then show ?L
    proof
      assume ?A
      then have "c # cs = [] @ (c # cs)" "re_match r []" "re_match s (c # cs)" by auto
      then show ?L by blast
    next
      assume ?B
      then obtain u v where "cs = u @ v" "re_match (deriv c r) u" "re_match s v" by blast
      then have "c # cs = (c # u) @ v" "re_match r (c # u)" "re_match s v" by auto
      then show ?L by blast
    qed
  qed
  show ?case
    unfolding split using Cons.IH by (cases "nullable r") auto
qed

lemma re_match_Rep_Cls [simp]: "re_match (Rep (Cls p)) w \<longleftrightarrow> list_all p w"
  by (induction w) (auto simp: re_match_Cat)


lemma re_match_Cat_Nul [simp]: "\<not> re_match (Cat Nul s) w"
  by (induction w) auto

lemma re_match_Cat_Eps [simp]: "re_match (Cat Eps s) w \<longleftrightarrow> re_match s w"
  by (cases w) auto

lemma re_match_Cat_Cls [simp]:
  "re_match (Cat (Cls p) s) w \<longleftrightarrow> (\<exists>c v. w = c # v \<and> p c \<and> re_match s v)"
  by (cases w) auto

lemma re_match_chr [simp]: "re_match (chr a) w \<longleftrightarrow> w = [a]"
  by (auto simp: chr_def)

lemma re_match_Cat_chr [simp]:
  "re_match (Cat (chr a) s) w \<longleftrightarrow> (\<exists>v. w = a # v \<and> re_match s v)"
  by (auto simp: chr_def)

lemma re_match_opt [simp]: "re_match (opt r) w \<longleftrightarrow> w = [] \<or> re_match r w"
  by (simp add: opt_def)

lemma re_match_plus1 [simp]: "re_match (plus1 (Cls p)) w \<longleftrightarrow> w \<noteq> [] \<and> list_all p w"
  unfolding plus1_def by (cases w) simp_all

lemma re_match_rep_n: "re_match (rep_n n (Cls p)) w \<longleftrightarrow> length w = n \<and> list_all p w"
proof (induction n arbitrary: w)
  case 0
  then show ?case by auto
next
  case (Suc n)
  then show ?case by (cases w) simp_all
qed

lemma digit_chars [simp]:
  "\<not> is_digit CHR ''-''" "\<not> is_digit CHR ''.''" "\<not> is_digit CHR '',''"
  "\<not> is_space CHR ''-''" "\<not> is_space CHR ''.''" "\<not> is_space CHR '',''"
  by (simp_all add: is_digit_def is_space_def)

lemma digit_not_space: "is_digit c \<Longrightarrow> \<not> is_space c"
  by (auto simp: is_digit_def is_space_def)

lemma space_not_digit: "is_space c \<Longrightarrow> \<not> is_digit c"
  by (auto simp: is_digit_def is_space_def)

lemma re_match_Cat_plus1:
  "re_match (Cat (plus1 (Cls p)) s) w \<longleftrightarrow>
     (\<exists>ds v. w = ds @ v \<and> ds \<noteq> [] \<and> list_all p ds \<and> re_match s v)"
  by (subst re_match_Cat) simp

lemma re_match_Cat_opt_chr:
  "re_match (Cat (opt (chr a)) s) w \<longleftrightarrow> re_match s w \<or> (\<exists>v. w = a # v \<and> re_match s v)"
proof -
  have "re_match (Cat (opt (chr a)) s) w \<longleftrightarrow>
          (\<exists>u v. w = u @ v \<and> (u = [] \<or> u = [a]) \<and> re_match s v)"
    by (subst re_match_Cat) simp
  also have "\<dots> \<longleftrightarrow> re_match s w \<or> (\<exists>v. w = a # v \<and> re_match s v)"
  proof
    assume "\<exists>u v. w = u @ v \<and> (u = [] \<or> u = [a]) \<and> re_match s v"
    then show "re_match s w \<or> (\<exists>v. w = a # v \<and> re_match s v)" by auto
  next
    assume "re_match s w \<or> (\<exists>v. w = a # v \<and> re_match s v)"
    then show "\<exists>u v. w = u @ v \<and> (u = [] \<or> u = [a]) \<and> re_match s v"
    proof
      assume "re_match s w"
      then have "w = [] @ w \<and> ([] = [] \<or> [] = [a]) \<and> re_match s w" by simp
      then show ?thesis by blast
    next
      assume "\<exists>v. w = a # v \<and> re_match s v"
      then obtain v where "w = [a] @ v \<and> ([a] = [] \<or> [a] = [a]) \<and> re_match s v" by auto
      then show ?thesis by blast
    qed
  qed
  finally show ?thesis .
qed

text \<open>The strings of \<^verbatim>\<open>-?\d+(\.\d+)?\<close>.\<close>

lemma unsigned_iff:
  "re_match (Cat (plus1 (Cls is_digit)) (opt (Cat (chr CHR ''.'') (plus1 (Cls is_digit))))) w
     \<longleftrightarrow> (\<exists>ds fr. w = ds @ fr \<and> ds \<noteq> [] \<and> list_all is_digit ds
            \<and> (fr = [] \<or> (\<exists>fs. fr = CHR ''.'' # fs \<and> fs \<noteq> [] \<and> list_all is_digit fs)))"
  by (simp add: re_match_Cat_plus1)

lemma number_rx_iff:
  "re_match number_rx a \<longleftrightarrow>
     (\<exists>sg ds fr. a = sg @ ds @ fr \<and> (sg = [] \<or> sg = [CHR ''-''])
        \<and> ds \<noteq> [] \<and> list_all is_digit ds
        \<and> (fr = [] \<or> (\<exists>fs. fr = CHR ''.'' # fs \<and> fs \<noteq> [] \<and> list_all is_digit fs)))"
  (is "?L \<longleftrightarrow> ?R")
proof
  assume ?L
  then consider "re_match (Cat (plus1 (Cls is_digit))
                    (opt (Cat (chr CHR ''.'') (plus1 (Cls is_digit))))) a"
    | v where "a = CHR ''-'' # v" "re_match (Cat (plus1 (Cls is_digit))
                    (opt (Cat (chr CHR ''.'') (plus1 (Cls is_digit))))) v"
    unfolding number_rx_def re_match_Cat_opt_chr by blast
  then show ?R
  proof cases
    case 1
    then obtain ds fr where "a = [] @ ds @ fr" "ds \<noteq> []" "list_all is_digit ds"
      "fr = [] \<or> (\<exists>fs. fr = CHR ''.'' # fs \<and> fs \<noteq> [] \<and> list_all is_digit fs)"
      unfolding unsigned_iff by auto
    then show ?thesis by blast
  next
    case 2
    then obtain ds fr where "a = [CHR ''-''] @ ds @ fr" "ds \<noteq> []" "list_all is_digit ds"
      "fr = [] \<or> (\<exists>fs. fr = CHR ''.'' # fs \<and> fs \<noteq> [] \<and> list_all is_digit fs)"
      unfolding unsigned_iff by auto
    then show ?thesis by blast
  qed
next
  assume ?R
  then obtain sg ds fr where dec: "a = sg @ ds @ fr" and sg: "sg = [] \<or> sg = [CHR ''-'']"
    and rest: "ds \<noteq> []" "list_all is_digit ds"
      "fr = [] \<or> (\<exists>fs. fr = CHR ''.'' # fs \<and> fs \<noteq> [] \<and> list_all is_digit fs)"
    by blast
  have u: "re_match (Cat (plus1 (Cls is_digit))
             (opt (Cat (chr CHR ''.'') (plus1 (Cls is_digit))))) (ds @ fr)"
    unfolding unsigned_iff using rest by blast
  show ?L
    unfolding number_rx_def re_match_Cat_opt_chr using sg dec u by auto
qed

lemma stop_at_head:
  "t = [] \<or> \<not> p (hd t) \<Longrightarrow> takeWhile p t = [] \<and> dropWhile p t = t"
  by (cases t) auto

lemma run_then_stop:
  assumes "list_all p ds" and "t = [] \<or> \<not> p (hd t)"
  shows "takeWhile p (ds @ t) = ds" and "dropWhile p (ds @ t) = t"
proof -
  have "takeWhile p t = [] \<and> dropWhile p t = t"
    using assms(2) by (rule stop_at_head [of t p])
  then show "takeWhile p (ds @ t) = ds" and "dropWhile p (ds @ t) = t"
    using assms(1) by (induction ds) auto
qed

lemma after_opt_hit [simp]: "after_opt c (c # s) = s"
  by (simp add: after_opt_def)

lemma after_opt_miss: "s = [] \<or> hd s \<noteq> c \<Longrightarrow> after_opt c s = s"
  by (cases s) (auto simp: after_opt_def)

lemma match_number_number:
  assumes a: "re_match number_rx a"
      and r: "r = [] \<or> (hd r \<noteq> CHR ''.'' \<and> \<not> is_digit (hd r))"
  shows "match_number (a @ r) = Some (a, r)"
proof -
  from a obtain sg ds fr where dec: "a = sg @ ds @ fr"
    and sg: "sg = [] \<or> sg = [CHR ''-'']"
    and ds: "ds \<noteq> []" "list_all is_digit ds"
    and fr: "fr = [] \<or> (\<exists>fs. fr = CHR ''.'' # fs \<and> fs \<noteq> [] \<and> list_all is_digit fs)"
    unfolding number_rx_iff by blast
  have hd_ds: "is_digit (hd ds)" using ds by (cases ds) auto
  have 1: "after_opt CHR ''-'' (a @ r) = ds @ fr @ r"
  proof (cases "sg = []")
    case True
    have "hd (ds @ fr @ r) \<noteq> CHR ''-''" using ds hd_ds by (cases ds) auto
    then show ?thesis using True dec ds by (simp add: after_opt_miss)
  next
    case False
    then show ?thesis using sg dec by simp
  qed
  have stop1: "fr @ r = [] \<or> \<not> is_digit (hd (fr @ r))"
    using fr r by (cases fr) auto
  have 2: "takeWhile is_digit (ds @ fr @ r) = ds" "dropWhile is_digit (ds @ fr @ r) = fr @ r"
    using run_then_stop [OF ds(2) stop1] by simp_all
  have 3: "dropWhile is_digit (after_opt CHR ''.'' (fr @ r)) = r"
  proof (cases "fr = []")
    case True
    have "after_opt CHR ''.'' r = r" using r by (auto simp: after_opt_miss)
    moreover have "dropWhile is_digit r = r" using r by (cases r) auto
    ultimately show ?thesis using True by simp
  next
    case False
    then obtain fs where fs: "fr = CHR ''.'' # fs" "list_all is_digit fs" using fr by blast
    have "r = [] \<or> \<not> is_digit (hd r)" using r by auto
    then show ?thesis using run_then_stop(2) [OF fs(2)] by (simp add: fs(1))
  qed
  show ?thesis
    using ds by (simp add: match_number_def Let_def 1 2 3)
qed

lemma match_number_none: "c \<noteq> CHR ''-'' \<Longrightarrow> \<not> is_digit c \<Longrightarrow> match_number (c # t) = None"
  by (simp add: match_number_def after_opt_def)

lemma findall_skip: "c \<noteq> CHR ''-'' \<Longrightarrow> \<not> is_digit c \<Longrightarrow> findall_numbers (c # t) = findall_numbers t"
  by (subst findall_numbers.simps) (simp add: match_number_none)

lemma findall_skip_spaces: "list_all is_space ws \<Longrightarrow> findall_numbers (ws @ t) = findall_numbers t"
proof (induction ws)
  case Nil
  then show ?case by simp
next
  case (Cons c ws)
  then have "c \<noteq> CHR ''-''" "\<not> is_digit c" by (auto simp: space_not_digit)
  then show ?case using Cons by (simp add: findall_skip)
qed

lemma number_nonempty: "re_match number_rx a \<Longrightarrow> a \<noteq> []"
  unfolding number_rx_iff by auto

lemma findall_number:
  assumes a: "re_match number_rx a"
      and r: "r = [] \<or> (hd r \<noteq> CHR ''.'' \<and> \<not> is_digit (hd r))"
  shows "findall_numbers (a @ r) = a # findall_numbers r"
  using number_nonempty [OF a]
  by (subst findall_numbers.simps) (simp add: match_number_number [OF a r])

lemma findall_pair:
  assumes a: "re_match number_rx a" and b: "re_match number_rx b" and ws: "list_all is_space ws"
  shows "findall_numbers (a @ CHR '','' # ws @ b) = [a, b]"
proof -
  have "findall_numbers (a @ CHR '','' # ws @ b) = a # findall_numbers (CHR '','' # ws @ b)"
    by (rule findall_number [OF a]) simp
  also have "findall_numbers (CHR '','' # ws @ b) = findall_numbers (ws @ b)"
    by (simp add: findall_skip)
  also have "\<dots> = findall_numbers b"
    by (rule findall_skip_spaces [OF ws])
  also have "\<dots> = b # findall_numbers []"
    using findall_number [OF b, of "[]"] by simp
  also have "findall_numbers [] = []"
    by (subst findall_numbers.simps) simp
  finally show ?thesis .
qed


lemma zip_rx_chars:
  assumes "re_match zip_rx w"
  shows "\<forall>c\<in>set w. is_digit c \<or> c = CHR ''-''"
proof -
  from assms obtain u v where w: "w = u @ v" and u: "list_all is_digit u"
    and v: "v = [] \<or> (\<exists>t. v = CHR ''-'' # t \<and> list_all is_digit t)"
    unfolding zip_rx_def by (subst (asm) re_match_Cat) (auto simp: re_match_rep_n)
  show ?thesis
    using u v unfolding w by (auto simp: list_all_iff)
qed

lemma zip_rx_no_comma:
  assumes "CHR '','' \<in> set w"
  shows "\<not> re_match zip_rx w"
proof
  assume "re_match zip_rx w"
  then have "is_digit CHR '','' \<or> CHR '','' = CHR ''-''"
    using zip_rx_chars assms by blast
  then show False by simp
qed

lemma coordinates_rx_pair:
  assumes a: "re_match number_rx a" and b: "re_match number_rx b" and ws: "list_all is_space ws"
  shows "re_match coordinates_rx (a @ CHR '','' # ws @ b)"
proof -
  have "ws @ b = ws @ b \<and> re_match (Rep (Cls is_space)) ws \<and> re_match number_rx b"
    using ws b by simp
  then have 1: "re_match (Cat (Rep (Cls is_space)) number_rx) (ws @ b)"
    unfolding re_match_Cat [of "Rep (Cls is_space)"] by blast
  have 2: "re_match (Cat (chr CHR '','') (Cat (Rep (Cls is_space)) number_rx))
             (CHR '','' # ws @ b)"
    unfolding re_match_Cat_chr using 1 by blast
  have "a @ CHR '','' # ws @ b = a @ (CHR '','' # ws @ b) \<and> re_match number_rx a
          \<and> re_match (Cat (chr CHR '','') (Cat (Rep (Cls is_space)) number_rx))
               (CHR '','' # ws @ b)"
    using a 2 by simp
  then show ?thesis
    unfolding coordinates_rx_def re_match_Cat [of number_rx] by blast
qed

lemma number_ends:
  assumes "re_match number_rx a"
  shows "a \<noteq> []" and "\<not> is_space (hd a)" and "is_digit (last a)"
proof -
  from assms obtain sg ds fr where dec: "a = sg @ ds @ fr"
    and sg: "sg = [] \<or> sg = [CHR ''-'']"
    and ds: "ds \<noteq> []" "list_all is_digit ds"
    and fr: "fr = [] \<or> (\<exists>fs. fr = CHR ''.'' # fs \<and> fs \<noteq> [] \<and> list_all is_digit fs)"
    unfolding number_rx_iff by blast
  show "a \<noteq> []" using dec ds by simp
  have "is_digit (hd ds)" using ds by (cases ds) auto
  then show "\<not> is_space (hd a)"
    using sg ds dec by (auto simp: digit_not_space)
  have ld: "is_digit (last ds)" using ds by (auto simp: list_all_iff)
  show "is_digit (last a)"
  proof (cases "fr = []")
    case True
    then show ?thesis using dec ds ld by simp
  next
    case False
    then obtain fs where fs: "fr = CHR ''.'' # fs" "fs \<noteq> []" "list_all is_digit fs"
      using fr by blast
    then have "is_digit (last fs)" by (auto simp: list_all_iff)
    then show ?thesis using dec fs by simp
  qed
qed

lemma strip_id:
  assumes "s \<noteq> []" and "\<not> is_space (hd s)" and "\<not> is_space (last s)"
  shows "strip s = s"
proof -
  have 1: "dropWhile is_space s = s" using assms(1,2) by (cases s) auto
  have "rev s \<noteq> []" "\<not> is_space (hd (rev s))"
    using assms(1,3) by (simp_all add: hd_rev)
  then have 2: "dropWhile is_space (rev s) = rev s" by (cases "rev s") auto
  show ?thesis by (simp add: strip_def 1 2)
qed

lemma strip_pair:
  assumes a: "re_match number_rx a" and b: "re_match number_rx b"
  shows "strip (a @ CHR '','' # ws @ b) = a @ CHR '','' # ws @ b"
proof (rule strip_id)
  show "a @ CHR '','' # ws @ b \<noteq> []" by simp
  show "\<not> is_space (hd (a @ CHR '','' # ws @ b))"
    using number_ends(1,2) [OF a] by simp
  show "\<not> is_space (last (a @ CHR '','' # ws @ b))"
    using number_ends(1,3) [OF b] by (simp add: digit_not_space)
qed

lemma validate_pair:
  assumes a: "re_match number_rx a" and b: "re_match number_rx b" and ws: "list_all is_space ws"
  shows "validate (PyStr (a @ CHR '','' # ws @ b))
           = (True, ''Valid location format'', Some ''coordinates'')"
proof -
  let ?s = "a @ CHR '','' # ws @ b"
  have len: "\<not> length ?s < 2"
    using number_ends(1) [OF a] number_ends(1) [OF b]
    by (cases a; cases b) auto
  have z: "\<not> re_match zip_rx ?s" by (rule zip_rx_no_comma) simp
  have c: "re_match coordinates_rx ?s" by (rule coordinates_rx_pair [OF a b ws])
  have fm: "first_match PATTERNS ?s = Some ''coordinates''"
    by (simp add: PATTERNS_def z c)
  have "validate_str ?s = (True, ''Valid location format'', Some ''coordinates'')"
    unfolding validate_str_def strip_pair [OF a b] using len fm by (simp add: Let_def)
  then show ?thesis by simp
qed

lemma normalize_pair:
  assumes a: "re_match number_rx a" and b: "re_match number_rx b" and ws: "list_all is_space ws"
      and x: "pyfloat a = Some x" and y: "pyfloat b = Some y"
  shows "normalize_location pyfloat fmt6 (a @ CHR '','' # ws @ b) ''coordinates''
           = fmt6 x @ '','' @ fmt6 y"
  by (simp add: normalize_location_def Let_def strip_pair [OF a b] findall_pair [OF a b ws]
        unpack_lat_lon_def x y)


text \<open>The decimal instance on the two numbers 40.7128 and -74.006.\<close>

lemma dec1: "dec_float ''40.7128'' = Some (407128 / 10000)"
  by (simp add: dec_float_def is_digit_def nat_of_digits_def digit_val_def)

lemma dec2: "dec_float ''-74.006'' = Some (- (74006 / 1000))"
  by (simp add: dec_float_def is_digit_def nat_of_digits_def digit_val_def)

lemma rhe1: "round_half_even 40712800 = 40712800"
  by (simp add: round_half_even_def)

lemma rhe2: "round_half_even 74006000 = 74006000"
  by (simp add: round_half_even_def)

lemma show_nat_vals: "show_nat 40 = ''40''" "show_nat 712800 = ''712800''" "show_nat 74 = ''74''"
  "show_nat 6000 = ''6000''"
  by (simp_all add: show_nat.simps)

lemma replicate_2: "replicate 2 c = [c, c]"
  by (simp add: numeral_2_eq_2)

lemma fmt1: "fmt6_dec (407128 / 10000) = ''40.712800''"
  by (simp add: fmt6_dec_def Let_def rhe1 pad6_def show_nat_vals)

lemma fmt2: "fmt6_dec (- (74006 / 1000)) = ''-74.006000''"
  by (simp add: fmt6_dec_def Let_def rhe2 pad6_def show_nat_vals replicate_2)

lemma dec3: "dec_float ''40.712800'' = Some (407128 / 10000)"
  by (simp add: dec_float_def is_digit_def nat_of_digits_def digit_val_def)

lemma dec4: "dec_float ''-74.006000'' = Some (- (74006 / 1000))"
  by (simp add: dec_float_def is_digit_def nat_of_digits_def digit_val_def)

lemma num1: "re_match number_rx ''40.7128''" "re_match number_rx ''-74.006''"
  "re_match number_rx ''40.712800''" "re_match number_rx ''-74.006000''"
  by (simp_all add: number_rx_def opt_def chr_def plus1_def is_digit_def
      del: re_match_Cat_Cls re_match_Cat_Eps re_match_Cat_Nul re_match_Alt re_match_Rep_Cls re_match_Cls re_match_Eps re_match_Nul)


text \<open>
  Claim C7.  A string made of a number, a comma, optional whitespace and a number (numbers
  as in the coordinates pattern, \<^verbatim>\<open>-?\d+(\.\d+)?\<close>) is classified as coordinates;
  \<^verbatim>\<open>normalize_location\<close> turns it into the two numbers printed with six places and
  joined by a comma; and normalizing that result gives it back.  The library's
  \<^verbatim>\<open>float\<close> and \<^verbatim>\<open>'.6f'\<close> enter through their contract: \<^verbatim>\<open>float\<close> reads both numbers,
  a value printed with six places is again a number of the pattern, and reading it back
  and printing it again gives the same text.
\<close>

theorem coordinates_classified_and_normalized:
  assumes "re_match number_rx a" and "re_match number_rx b" and "list_all is_space ws"
      and "pyfloat a = Some x" and "pyfloat b = Some y"
      and "re_match number_rx (fmt6 x)" and "re_match number_rx (fmt6 y)"
      and "pyfloat (fmt6 x) = Some x'" and "fmt6 x' = fmt6 x"
      and "pyfloat (fmt6 y) = Some y'" and "fmt6 y' = fmt6 y"
  shows "validate (PyStr (a @ '','' @ ws @ b))
           = (True, ''Valid location format'', Some ''coordinates'')
       \<and> normalize_location pyfloat fmt6 (a @ '','' @ ws @ b) ''coordinates''
           = fmt6 x @ '','' @ fmt6 y
       \<and> normalize_location pyfloat fmt6 (fmt6 x @ '','' @ fmt6 y) ''coordinates''
           = fmt6 x @ '','' @ fmt6 y"
proof -
  have 1: "validate (PyStr (a @ CHR '','' # ws @ b))
             = (True, ''Valid location format'', Some ''coordinates'')"
    using assms(1-3) by (rule validate_pair)
  have 2: "normalize_location pyfloat fmt6 (a @ CHR '','' # ws @ b) ''coordinates''
             = fmt6 x @ '','' @ fmt6 y"
    using assms(1-5) by (rule normalize_pair)
  have "normalize_location pyfloat fmt6 (fmt6 x @ CHR '','' # [] @ fmt6 y) ''coordinates''
             = fmt6 x' @ '','' @ fmt6 y'"
    using assms(6,7) _ assms(8,10) by (rule normalize_pair) simp
  then have 3: "normalize_location pyfloat fmt6 (fmt6 x @ CHR '','' # fmt6 y) ''coordinates''
             = fmt6 x @ '','' @ fmt6 y"
    by (simp add: assms(9,11))
  show ?thesis using 1 2 3 by simp
qed


theorem coordinates_classified_and_normalized_witness:
  "validate (PyStr ''40.7128, -74.006'')
     = (True, ''Valid location format'', Some ''coordinates'')
   \<and> normalize_location dec_float fmt6_dec ''40.7128, -74.006'' ''coordinates''
       = ''40.712800,-74.006000''
   \<and> normalize_location dec_float fmt6_dec ''40.712800,-74.006000'' ''coordinates''
       = ''40.712800,-74.006000''"
proof -
  have ws: "list_all is_space '' ''"
    by (simp add: is_space_def)
  have x: "dec_float (fmt6_dec (407128 / 10000)) = Some (407128 / 10000)"
    and y: "dec_float (fmt6_dec (- (74006 / 1000))) = Some (- (74006 / 1000))"
    by (simp_all only: fmt1 fmt2 dec3 dec4)
  have nx: "re_match number_rx (fmt6_dec (407128 / 10000))"
    and ny: "re_match number_rx (fmt6_dec (- (74006 / 1000)))"
    by (simp_all only: fmt1 fmt2 num1)
  have "validate (PyStr (''40.7128'' @ '','' @ '' '' @ ''-74.006''))
           = (True, ''Valid location format'', Some ''coordinates'')
       \<and> normalize_location dec_float fmt6_dec (''40.7128'' @ '','' @ '' '' @ ''-74.006'')
             ''coordinates''
           = fmt6_dec (407128 / 10000) @ '','' @ fmt6_dec (- (74006 / 1000))
       \<and> normalize_location dec_float fmt6_dec
             (fmt6_dec (407128 / 10000) @ '','' @ fmt6_dec (- (74006 / 1000))) ''coordinates''
           = fmt6_dec (407128 / 10000) @ '','' @ fmt6_dec (- (74006 / 1000))"
    by (rule coordinates_classified_and_normalized
          [OF num1(1) num1(2) ws dec1 dec2 nx ny x refl y refl])
  then show ?thesis
    unfolding fmt1 fmt2 append.simps .
qed

end
